theory Spec2Isabelle
  imports Complex_Main "HOL-Library.AList" "HOL-Library.Word" "HOL-Library.Log_Nat"
begin

section \<open>JavaScript numbers\<close>

text \<open>
  The sources compute with the JavaScript type \<^verbatim>\<open>number\<close>. A number is NaN, one of the two
  infinities, or a finite value; finite values are represented by reals. The operations
  \<open>js_add\<close>, \<open>js_sub\<close>, \<open>js_mul\<close> and \<open>js_div\<close> below give the infinitely precise result on
  finite values and follow ECMAScript on the special values (NaN is absorbing,
  \<^verbatim>\<open>Infinity - Infinity\<close> and \<^verbatim>\<open>0 * Infinity\<close> are NaN, every comparison with NaN is false,
  division by zero yields an infinity or NaN). The operation of a double is that result rounded
  to the nearest double, ties to even (\<open>fl_add\<close>, \<open>fl_sub\<close>, \<open>fl_mul\<close>, \<open>fl_div\<close>, further
  down). The coordinate converter, whose round trip is a statement about rounding, is built from
  the rounded operations; the other components are built from the unrounded ones. The sign of
  zero is not represented: a zero divisor is read as \<^verbatim>\<open>+0\<close>, which is the sign it has whenever
  it is the literal \<^verbatim>\<open>0\<close> or a positive value that rounded to zero.
\<close>

datatype jsnum = NaN | PInf | NInf | Fin real

fun js_isNaN :: "jsnum \<Rightarrow> bool" where
  "js_isNaN NaN = True"
| "js_isNaN _ = False"

fun js_isFinite :: "jsnum \<Rightarrow> bool" where
  "js_isFinite (Fin _) = True"
| "js_isFinite _ = False"

text \<open>Unary minus.\<close>

fun js_neg :: "jsnum \<Rightarrow> jsnum" where
  "js_neg NaN = NaN"
| "js_neg PInf = NInf"
| "js_neg NInf = PInf"
| "js_neg (Fin a) = Fin (- a)"

text \<open>The operator \<^verbatim>\<open>+\<close> on numbers.\<close>

fun js_add :: "jsnum \<Rightarrow> jsnum \<Rightarrow> jsnum" where
  "js_add NaN _ = NaN"
| "js_add _ NaN = NaN"
| "js_add PInf NInf = NaN"
| "js_add NInf PInf = NaN"
| "js_add PInf _ = PInf"
| "js_add _ PInf = PInf"
| "js_add NInf _ = NInf"
| "js_add _ NInf = NInf"
| "js_add (Fin a) (Fin b) = Fin (a + b)"

text \<open>The operator \<^verbatim>\<open>-\<close>: \<^verbatim>\<open>a - b\<close> is \<^verbatim>\<open>a + (-b)\<close>.\<close>

definition js_sub :: "jsnum \<Rightarrow> jsnum \<Rightarrow> jsnum" where
  "js_sub a b = js_add a (js_neg b)"

text \<open>An infinity with the sign of a finite factor; a zero factor gives NaN.\<close>

definition inf_signed :: "real \<Rightarrow> jsnum" where
  "inf_signed a = (if a = 0 then NaN else if 0 < a then PInf else NInf)"

text \<open>The operator \<^verbatim>\<open>*\<close>.\<close>

fun js_mul :: "jsnum \<Rightarrow> jsnum \<Rightarrow> jsnum" where
  "js_mul NaN _ = NaN"
| "js_mul _ NaN = NaN"
| "js_mul PInf PInf = PInf"
| "js_mul PInf NInf = NInf"
| "js_mul NInf PInf = NInf"
| "js_mul NInf NInf = PInf"
| "js_mul PInf (Fin b) = inf_signed b"
| "js_mul NInf (Fin b) = inf_signed (- b)"
| "js_mul (Fin a) PInf = inf_signed a"
| "js_mul (Fin a) NInf = inf_signed (- a)"
| "js_mul (Fin a) (Fin b) = Fin (a * b)"

text \<open>
  The operator \<^verbatim>\<open>/\<close>. A finite non-zero value divided by zero is an infinity with the sign of
  the dividend (the divisor is read as \<^verbatim>\<open>+0\<close>), \<^verbatim>\<open>0 / 0\<close> is NaN, a finite value divided by an
  infinity is zero, an infinity divided by an infinity is NaN.
\<close>

fun js_div :: "jsnum \<Rightarrow> jsnum \<Rightarrow> jsnum" where
  "js_div NaN _ = NaN"
| "js_div _ NaN = NaN"
| "js_div PInf PInf = NaN"
| "js_div PInf NInf = NaN"
| "js_div NInf PInf = NaN"
| "js_div NInf NInf = NaN"
| "js_div PInf (Fin b) = (if 0 \<le> b then PInf else NInf)"
| "js_div NInf (Fin b) = (if 0 \<le> b then NInf else PInf)"
| "js_div (Fin a) PInf = Fin 0"
| "js_div (Fin a) NInf = Fin 0"
| "js_div (Fin a) (Fin b) = (if b = 0 then inf_signed a else Fin (a / b))"

text \<open>The comparison \<^verbatim>\<open><\<close>; it is false as soon as one side is NaN.\<close>

fun js_lt :: "jsnum \<Rightarrow> jsnum \<Rightarrow> bool" where
  "js_lt NaN _ = False"
| "js_lt _ NaN = False"
| "js_lt _ NInf = False"
| "js_lt NInf _ = True"
| "js_lt PInf _ = False"
| "js_lt _ PInf = True"
| "js_lt (Fin a) (Fin b) = (a < b)"

text \<open>The comparison \<^verbatim>\<open><=\<close>.\<close>

fun js_le :: "jsnum \<Rightarrow> jsnum \<Rightarrow> bool" where
  "js_le NaN _ = False"
| "js_le _ NaN = False"
| "js_le NInf _ = True"
| "js_le _ PInf = True"
| "js_le _ NInf = False"
| "js_le PInf _ = False"
| "js_le (Fin a) (Fin b) = (a \<le> b)"

text \<open>\<^verbatim>\<open>a > b\<close> and \<^verbatim>\<open>a >= b\<close> are \<^verbatim>\<open>b < a\<close> and \<^verbatim>\<open>b <= a\<close>.\<close>

definition js_gt :: "jsnum \<Rightarrow> jsnum \<Rightarrow> bool" where
  "js_gt a b = js_lt b a"

definition js_ge :: "jsnum \<Rightarrow> jsnum \<Rightarrow> bool" where
  "js_ge a b = js_le b a"

text \<open>\<^verbatim>\<open>Math.min\<close> and \<^verbatim>\<open>Math.max\<close> of two arguments: NaN as soon as one argument is NaN.\<close>

definition js_min :: "jsnum \<Rightarrow> jsnum \<Rightarrow> jsnum" where
  "js_min a b = (if js_isNaN a \<or> js_isNaN b then NaN else if js_le a b then a else b)"

definition js_max :: "jsnum \<Rightarrow> jsnum \<Rightarrow> jsnum" where
  "js_max a b = (if js_isNaN a \<or> js_isNaN b then NaN else if js_le a b then b else a)"

text \<open>\<^verbatim>\<open>v || 0\<close> on a number: the falsy numbers are zero and NaN.\<close>

definition js_or_zero :: "jsnum \<Rightarrow> jsnum" where
  "js_or_zero v = (if v = NaN \<or> v = Fin 0 then Fin 0 else v)"

subsection \<open>Rounding to a double\<close>

text \<open>
  A finite double is an integer multiple \<open>m * 2 ^ e\<close> with \<open>\<bar>m\<bar> < 2 ^ 53\<close> and
  \<open>- 1074 \<le> e \<le> 971\<close>. \<open>binade v\<close> is the exponent of the power of two at or below \<open>\<bar>v\<bar>\<close>,
  that is \<open>\<lfloor>log 2 \<bar>v\<bar>\<rfloor>\<close>, computed from the bit length of an integer. \<open>quantum v\<close> is the
  spacing of the doubles around \<open>v\<close>: 52 binary places below the binade, and never below
  \<open>2 ^ - 1074\<close>, the spacing of the subnormal doubles.
\<close>

definition binade :: "real \<Rightarrow> int" where
  "binade v = (if 1 \<le> \<bar>v\<bar> then bitlen \<lfloor>\<bar>v\<bar>\<rfloor> - 1 else - bitlen (\<lceil>1 / \<bar>v\<bar>\<rceil> - 1))"

definition quantum :: "real \<Rightarrow> real" where
  "quantum v = 2 powi (max (- 1074) (binade v - 52))"

text \<open>The nearest integer, the even one of two that are equally near.\<close>

definition round_half_even :: "real \<Rightarrow> int" where
  "round_half_even v =
     (let f = \<lfloor>v\<rfloor>; d = v - of_int f
      in if d < 1 / 2 then f else if 1 / 2 < d then f + 1 else if even f then f else f + 1)"

text \<open>
  Round to nearest, ties to even: the nearest multiple of the quantum. A result of magnitude
  \<open>2 ^ 1024\<close> or more is beyond the largest double and becomes an infinity.
\<close>

definition round64 :: "real \<Rightarrow> jsnum" where
  "round64 v =
     (if v = 0 then Fin 0
      else let r = of_int (round_half_even (v / quantum v)) * quantum v
           in if 2 ^ 1024 \<le> \<bar>r\<bar> then (if 0 < v then PInf else NInf) else Fin r)"

text \<open>The operations of doubles: the infinitely precise result, rounded.\<close>

definition fl :: "jsnum \<Rightarrow> jsnum" where
  "fl v = (case v of Fin r \<Rightarrow> round64 r | _ \<Rightarrow> v)"

definition fl_add :: "jsnum \<Rightarrow> jsnum \<Rightarrow> jsnum" where "fl_add a b = fl (js_add a b)"
definition fl_sub :: "jsnum \<Rightarrow> jsnum \<Rightarrow> jsnum" where "fl_sub a b = fl (js_sub a b)"
definition fl_mul :: "jsnum \<Rightarrow> jsnum \<Rightarrow> jsnum" where "fl_mul a b = fl (js_mul a b)"
definition fl_div :: "jsnum \<Rightarrow> jsnum \<Rightarrow> jsnum" where "fl_div a b = fl (js_div a b)"

text \<open>
  Half the relative spacing of the doubles, half the spacing of the subnormal doubles, the
  largest finite double and the smallest normal double.
\<close>

definition unit_roundoff :: real where "unit_roundoff = 1 / 2 ^ 53"
definition tiny :: real where "tiny = 1 / 2 ^ 1075"
definition max_double :: real where "max_double = 2 ^ 1024 - 2 ^ 971"
definition min_normal :: real where "min_normal = 1 / 2 ^ 1022"

section \<open>Coordinate converter (\<^verbatim>\<open>utils/coordinates.ts\<close>)\<close>

text \<open>A landmark, a normalized coordinate and a world coordinate are all \<^verbatim>\<open>{x, y, z}\<close>.\<close>

record landmark =
  x :: jsnum
  y :: jsnum
  z :: jsnum

definition normalizedToWorld :: "landmark \<Rightarrow> jsnum \<Rightarrow> landmark" where
  "normalizedToWorld normalized faceScale =
     \<lparr> x = fl_mul (fl_sub (x normalized) (Fin 0.5)) faceScale,
       y = fl_mul (js_neg (fl_sub (y normalized) (Fin 0.5))) faceScale,
       z = fl_mul (fl_mul (z normalized) faceScale) (Fin 0.5) \<rparr>"

definition worldToNormalized :: "landmark \<Rightarrow> jsnum \<Rightarrow> landmark" where
  "worldToNormalized world faceScale =
     \<lparr> x = fl_add (fl_div (x world) faceScale) (Fin 0.5),
       y = fl_add (js_neg (fl_div (y world) faceScale)) (Fin 0.5),
       z = fl_div (z world) (fl_mul faceScale (Fin 0.5)) \<rparr>"

text \<open>
  The bounding box. \<^verbatim>\<open>forEach\<close> runs over the landmarks from first to last and updates the six
  running bounds, which start at \<^verbatim>\<open>Infinity\<close> and \<^verbatim>\<open>-Infinity\<close>.
\<close>

record bbox =
  minX :: jsnum
  maxX :: jsnum
  minY :: jsnum
  maxY :: jsnum
  minZ :: jsnum
  maxZ :: jsnum
  width :: jsnum
  height :: jsnum
  depth :: jsnum

record bounds =
  bMinX :: jsnum
  bMaxX :: jsnum
  bMinY :: jsnum
  bMaxY :: jsnum
  bMinZ :: jsnum
  bMaxZ :: jsnum

definition bounds_init :: bounds where
  "bounds_init = \<lparr> bMinX = PInf, bMaxX = NInf, bMinY = PInf, bMaxY = NInf,
                   bMinZ = PInf, bMaxZ = NInf \<rparr>"

definition bounds_step :: "bounds \<Rightarrow> landmark \<Rightarrow> bounds" where
  "bounds_step b l =
     \<lparr> bMinX = js_min (bMinX b) (x l), bMaxX = js_max (bMaxX b) (x l),
       bMinY = js_min (bMinY b) (y l), bMaxY = js_max (bMaxY b) (y l),
       bMinZ = js_min (bMinZ b) (z l), bMaxZ = js_max (bMaxZ b) (z l) \<rparr>"

definition calculateFaceBoundingBox :: "landmark list \<Rightarrow> bbox" where
  "calculateFaceBoundingBox landmarks =
     (let b = foldl bounds_step bounds_init landmarks in
      \<lparr> minX = bMinX b, maxX = bMaxX b, minY = bMinY b, maxY = bMaxY b,
        minZ = bMinZ b, maxZ = bMaxZ b,
        width = js_sub (bMaxX b) (bMinX b),
        height = js_sub (bMaxY b) (bMinY b),
        depth = js_sub (bMaxZ b) (bMinZ b) \<rparr>)"

definition calculateOptimalFaceScale :: "landmark list \<Rightarrow> jsnum \<Rightarrow> jsnum" where
  "calculateOptimalFaceScale landmarks targetSize =
     (let box = calculateFaceBoundingBox landmarks;
          maxDimension = js_max (width box) (height box)
      in if js_gt maxDimension (Fin 0) then js_div targetSize maxDimension else targetSize)"

text \<open>
  \<^verbatim>\<open>validateLandmarks\<close>. The parameter has the type \<^verbatim>\<open>{x: number; y: number; z: number}[]\<close>, so
  \<^verbatim>\<open>Array.isArray\<close> and the three \<^verbatim>\<open>typeof\<close> tests hold; what remains is the test for the
  empty array and, per landmark, the NaN and range tests.
\<close>

definition landmark_ok :: "landmark \<Rightarrow> bool" where
  "landmark_ok l \<longleftrightarrow>
     \<not> js_isNaN (x l) \<and> js_ge (x l) (Fin 0) \<and> js_le (x l) (Fin 1) \<and>
     \<not> js_isNaN (y l) \<and> js_ge (y l) (Fin 0) \<and> js_le (y l) (Fin 1) \<and>
     \<not> js_isNaN (z l) \<and> js_ge (z l) (Fin (- 1)) \<and> js_le (z l) (Fin 1)"

definition validateLandmarks :: "landmark list \<Rightarrow> bool" where
  "validateLandmarks landmarks =
     (if length landmarks = 0 then False else list_all landmark_ok landmarks)"

text \<open>The ranges of the data model: a finite value between two bounds.\<close>

definition in_range :: "real \<Rightarrow> real \<Rightarrow> jsnum \<Rightarrow> bool" where
  "in_range lo hi v = (case v of Fin a \<Rightarrow> lo \<le> a \<and> a \<le> hi | _ \<Rightarrow> False)"

definition well_formed :: "landmark \<Rightarrow> bool" where
  "well_formed l \<longleftrightarrow> in_range 0 1 (x l) \<and> in_range 0 1 (y l) \<and> in_range (- 1) 1 (z l)"

definition outside :: "real \<Rightarrow> real \<Rightarrow> jsnum \<Rightarrow> bool" where
  "outside lo hi v \<longleftrightarrow> js_lt v (Fin lo) \<or> js_gt v (Fin hi)"

section \<open>Triangulation table (\<^verbatim>\<open>utils/triangulation.ts\<close>)\<close>

definition FACE_MESH_TRIANGLES :: "int list list" where
  "FACE_MESH_TRIANGLES = [
     [61, 146, 91], [91, 181, 84], [84, 17, 314], [314, 405, 321], [321, 375, 291],
     [291, 61, 146], [78, 95, 88], [88, 178, 87], [87, 14, 317], [317, 402, 318],
     [318, 324, 308], [308, 78, 95], [78, 191, 80], [80, 81, 82], [82, 13, 312],
     [312, 311, 310], [310, 415, 308], [308, 324, 318], [318, 402, 317], [317, 14, 87],
     [87, 178, 88], [88, 95, 78], [80, 191, 78], [82, 81, 80], [312, 13, 82],
     [310, 311, 312], [415, 310, 308],
     [362, 382, 381], [381, 380, 374], [374, 373, 390], [390, 249, 263], [263, 466, 388],
     [388, 387, 386], [386, 385, 384], [384, 398, 362], [398, 384, 385], [385, 386, 387],
     [387, 388, 466], [466, 263, 249], [249, 390, 373], [373, 374, 380], [380, 381, 382],
     [382, 362, 398],
     [33, 7, 163], [163, 144, 145], [145, 153, 154], [154, 155, 133], [133, 33, 246],
     [246, 161, 160], [160, 159, 158], [158, 157, 173], [173, 157, 158], [158, 159, 160],
     [160, 161, 246], [246, 33, 133], [133, 155, 154], [154, 153, 145], [145, 144, 163],
     [163, 7, 33],
     [276, 283, 282], [282, 295, 285], [285, 295, 282], [282, 283, 276], [283, 276, 300],
     [300, 293, 334], [334, 296, 336], [336, 285, 295], [295, 282, 285], [285, 336, 334],
     [334, 293, 300], [300, 276, 283],
     [46, 53, 52], [52, 65, 55], [55, 65, 52], [52, 53, 46], [53, 46, 70],
     [70, 63, 105], [105, 66, 107], [107, 55, 65], [65, 52, 55], [55, 107, 105],
     [105, 63, 70], [70, 46, 53],
     [1, 2, 98], [98, 97, 2], [2, 326, 327], [327, 294, 326], [168, 6, 197],
     [197, 195, 5], [5, 4, 1], [4, 5, 195], [195, 197, 6], [6, 168, 8],
     [8, 9, 168], [9, 8, 42], [42, 41, 38], [38, 37, 40], [40, 39, 37],
     [37, 38, 41], [41, 42, 8], [8, 168, 9], [168, 197, 195], [195, 5, 4],
     [4, 1, 2], [2, 97, 98], [98, 2, 326], [326, 294, 327], [327, 326, 294],
     [10, 338, 297], [297, 338, 337], [337, 299, 333], [333, 299, 298], [298, 337, 338],
     [338, 10, 297], [109, 10, 338], [338, 337, 299], [299, 333, 298], [298, 338, 337],
     [337, 338, 10], [10, 109, 338], [67, 109, 10], [10, 338, 337], [337, 299, 333],
     [333, 298, 337], [337, 338, 298], [298, 338, 109], [109, 67, 10],
     [127, 234, 93], [93, 234, 137], [137, 234, 177], [177, 234, 215], [215, 234, 177],
     [177, 215, 138], [138, 215, 214], [214, 215, 177], [177, 138, 214], [214, 138, 135],
     [135, 138, 177], [177, 137, 135], [135, 137, 234], [234, 127, 93], [93, 137, 234],
     [132, 58, 172], [172, 136, 150], [150, 149, 176], [176, 148, 152], [152, 377, 400],
     [400, 378, 379], [379, 365, 397], [397, 288, 361], [361, 323, 454], [454, 356, 389],
     [389, 200, 421], [421, 428, 262], [262, 369, 396], [396, 175, 171], [171, 32, 132]
  ]"

text \<open>\<^verbatim>\<open>getFaceTriangles\<close> pushes the three indices of every triangle, in table order.\<close>

definition getFaceTriangles :: "int list" where
  "getFaceTriangles = concat FACE_MESH_TRIANGLES"

definition validateTriangles :: "int list \<Rightarrow> int \<Rightarrow> bool" where
  "validateTriangles triangles landmarkCount =
     list_all (\<lambda>index. 0 \<le> index \<and> index < landmarkCount) triangles"

section \<open>Errors\<close>

text \<open>
  \<^verbatim>\<open>TypeError\<close> is what reading a property of \<^verbatim>\<open>undefined\<close> throws, \<^verbatim>\<open>IndexSizeError\<close> is the
  exception of the canvas path methods for a negative radius, \<^verbatim>\<open>Error msg\<close> is
  \<^verbatim>\<open>new Error(msg)\<close>.
\<close>

datatype js_error = TypeError | IndexSizeError | Error string

definition ebind :: "js_error + 'a \<Rightarrow> ('a \<Rightarrow> js_error + 'b) \<Rightarrow> js_error + 'b" where
  "ebind m f = (case m of Inl e \<Rightarrow> Inl e | Inr v \<Rightarrow> f v)"

section \<open>Mask boundary path of the compositor (\<^verbatim>\<open>components/MaskCompositor.tsx\<close>)\<close>

text \<open>
  A \<^verbatim>\<open>Path2D\<close> is represented by the list of the path calls issued on it, in order and with
  their arguments. What the canvas makes of a call (it skips one with a non-finite argument) is
  not part of the model; the exception of \<^verbatim>\<open>arcTo\<close> and \<^verbatim>\<open>ellipse\<close> for a negative radius is,
  since it ends the function that builds the path.
\<close>

datatype path_call =
    MoveTo jsnum jsnum
  | LineTo jsnum jsnum
  | ArcTo jsnum jsnum jsnum jsnum jsnum
  | ClosePath
  | Ellipse jsnum jsnum jsnum jsnum jsnum jsnum jsnum bool

type_synonym path2d = "path_call list"

definition moveTo :: "path2d \<Rightarrow> jsnum \<Rightarrow> jsnum \<Rightarrow> path2d" where
  "moveTo p a b = p @ [MoveTo a b]"

definition lineTo :: "path2d \<Rightarrow> jsnum \<Rightarrow> jsnum \<Rightarrow> path2d" where
  "lineTo p a b = p @ [LineTo a b]"

definition closePath :: "path2d \<Rightarrow> path2d" where
  "closePath p = p @ [ClosePath]"

definition arcTo :: "path2d \<Rightarrow> jsnum \<Rightarrow> jsnum \<Rightarrow> jsnum \<Rightarrow> jsnum \<Rightarrow> jsnum \<Rightarrow> js_error + path2d" where
  "arcTo p x1 y1 x2 y2 radius =
     (if list_all js_isFinite [x1, y1, x2, y2, radius] \<and> js_lt radius (Fin 0)
      then Inl IndexSizeError
      else Inr (p @ [ArcTo x1 y1 x2 y2 radius]))"

definition ellipse ::
  "path2d \<Rightarrow> jsnum \<Rightarrow> jsnum \<Rightarrow> jsnum \<Rightarrow> jsnum \<Rightarrow> jsnum \<Rightarrow> jsnum \<Rightarrow> jsnum \<Rightarrow> bool \<Rightarrow> js_error + path2d" where
  "ellipse p cx cy rx ry rotation startAngle endAngle ccw =
     (if list_all js_isFinite [cx, cy, rx, ry, rotation, startAngle, endAngle]
         \<and> (js_lt rx (Fin 0) \<or> js_lt ry (Fin 0))
      then Inl IndexSizeError
      else Inr (p @ [Ellipse cx cy rx ry rotation startAngle endAngle ccw]))"

text \<open>The landmark indices named in the compositor.\<close>

definition TOP_HEAD :: nat where "TOP_HEAD = 10"
definition CHIN :: nat where "CHIN = 152"
definition LEFT_EAR :: nat where "LEFT_EAR = 234"
definition RIGHT_EAR :: nat where "RIGHT_EAR = 454"

definition LEFT_EYE :: "nat list" where
  "LEFT_EYE = [33, 246, 161, 160, 159, 158, 157, 173, 133, 155, 154, 153, 145, 144, 163, 7]"

definition RIGHT_EYE :: "nat list" where
  "RIGHT_EYE = [362, 398, 384, 385, 386, 387, 388, 466, 263, 249, 390, 373, 374, 380, 381, 382]"

definition MOUTH_PTS :: "nat list" where
  "MOUTH_PTS = [78, 13, 308, 14]"

text \<open>
  \<^verbatim>\<open>lm[i]\<close> is \<^verbatim>\<open>undefined\<close> past the end of the array, and reading \<^verbatim>\<open>.x\<close> or \<^verbatim>\<open>.y\<close> of
  \<^verbatim>\<open>undefined\<close> throws.
\<close>

definition landmark_at :: "landmark list \<Rightarrow> nat \<Rightarrow> landmark option" where
  "landmark_at lm i = (if i < length lm then Some (lm ! i) else None)"

definition px :: "landmark list \<Rightarrow> nat \<Rightarrow> jsnum \<Rightarrow> js_error + jsnum" where
  "px lm i W = (case landmark_at lm i of None \<Rightarrow> Inl TypeError | Some l \<Rightarrow> Inr (js_mul (x l) W))"

definition py :: "landmark list \<Rightarrow> nat \<Rightarrow> jsnum \<Rightarrow> js_error + jsnum" where
  "py lm i H = (case landmark_at lm i of None \<Rightarrow> Inl TypeError | Some l \<Rightarrow> Inr (js_mul (y l) H))"

text \<open>The \<^verbatim>\<open>for\<close> loop of \<^verbatim>\<open>addHoleCCW\<close> over \<^verbatim>\<open>rev[1], rev[2], ...\<close>: one \<^verbatim>\<open>lineTo\<close> each.\<close>

fun hole_lines :: "path2d \<Rightarrow> nat list \<Rightarrow> landmark list \<Rightarrow> jsnum \<Rightarrow> jsnum \<Rightarrow> js_error + path2d" where
  "hole_lines p [] lm W H = Inr p"
| "hole_lines p (i # rest) lm W H =
     ebind (px lm i W) (\<lambda>a. ebind (py lm i H) (\<lambda>b. hole_lines (lineTo p a b) rest lm W H))"

text \<open>
  \<^verbatim>\<open>addHoleCCW\<close>: reverse a copy of the indices, move to the first of them, draw a line to each
  of the others, close. With no index at all \<^verbatim>\<open>rev[0]\<close> is \<^verbatim>\<open>undefined\<close> and so is
  \<^verbatim>\<open>lm[rev[0]]\<close>.
\<close>

definition addHoleCCW :: "path2d \<Rightarrow> nat list \<Rightarrow> landmark list \<Rightarrow> jsnum \<Rightarrow> jsnum \<Rightarrow> js_error + path2d" where
  "addHoleCCW path indices lm W H =
     (case rev indices of
        [] \<Rightarrow> Inl TypeError
      | i0 # rest \<Rightarrow>
          ebind (px lm i0 W) (\<lambda>a. ebind (py lm i0 H) (\<lambda>b.
          ebind (hole_lines (moveTo path a b) rest lm W H) (\<lambda>p. Inr (closePath p)))))"

text \<open>\<^verbatim>\<open>Math.PI\<close> is the double nearest to \<open>\<pi>\<close>, which is \<open>884279719003555 / 2 ^ 48\<close>.\<close>

definition MATH_PI :: jsnum where
  "MATH_PI = Fin (884279719003555 / 281474976710656)"

definition buildMaskPath :: "landmark list \<Rightarrow> jsnum \<Rightarrow> jsnum \<Rightarrow> js_error + path2d" where
  "buildMaskPath lm W H =
     ebind (py lm TOP_HEAD H) (\<lambda>topY.
     ebind (py lm CHIN H) (\<lambda>chinY.
     ebind (px lm LEFT_EAR W) (\<lambda>leftX.
     ebind (px lm RIGHT_EAR W) (\<lambda>rightX.
       let centerX = js_div (js_add leftX rightX) (Fin 2);
           faceW = js_sub rightX leftX;
           faceH = js_sub chinY topY;
           topMask = topY;
           bottomMask = js_add chinY (js_mul faceH (Fin 0.5));
           maskW = js_mul faceW (Fin 0.65);
           left = js_sub centerX maskW;
           right = js_add centerX maskW;
           cornerR = js_mul faceW (Fin 0.25);
           p1 = moveTo [] (js_add left cornerR) topMask;
           p2 = lineTo p1 (js_sub right cornerR) topMask
       in
       ebind (arcTo p2 right topMask right (js_add topMask cornerR) cornerR) (\<lambda>p3.
       ebind (arcTo (lineTo p3 right (js_sub bottomMask cornerR))
                right bottomMask (js_sub right cornerR) bottomMask cornerR) (\<lambda>p5.
       ebind (arcTo (lineTo p5 (js_add left cornerR) bottomMask)
                left bottomMask left (js_sub bottomMask cornerR) cornerR) (\<lambda>p7.
       ebind (arcTo (lineTo p7 left (js_add topMask cornerR))
                left topMask (js_add left cornerR) topMask cornerR) (\<lambda>p9.
       ebind (addHoleCCW (closePath p9) LEFT_EYE lm W H) (\<lambda>p11.
       ebind (addHoleCCW p11 RIGHT_EYE lm W H) (\<lambda>p12.
       ebind (px lm (MOUTH_PTS ! 0) W) (\<lambda>mLeft.
       ebind (py lm (MOUTH_PTS ! 1) H) (\<lambda>mTop.
       ebind (px lm (MOUTH_PTS ! 2) W) (\<lambda>mRight.
       ebind (py lm (MOUTH_PTS ! 3) H) (\<lambda>mBottom.
         let mCX = js_div (js_add mLeft mRight) (Fin 2);
             mCY = js_div (js_add mTop mBottom) (Fin 2);
             mRX = js_mul (js_sub mRight mLeft) (Fin 0.35);
             mRY = js_mul (js_sub mBottom mTop) (Fin 0.45)
         in ellipse p12 mCX mCY mRX mRY (Fin 0) (Fin 0) (js_mul MATH_PI (Fin 2)) True))))))))))))))"

section \<open>Mask image of the backend (\<^verbatim>\<open>services/maskProcessor.ts\<close>)\<close>

text \<open>
  \<^verbatim>\<open>generateMaskBuffer\<close> writes an SVG document: a white rectangle over the whole image, one
  black polygon per eye and a black ellipse for the mouth. The document is represented by its
  elements, a polygon by the list of its points, in the order in which the points are written
  into the \<^verbatim>\<open>points\<close> attribute; how a number is printed is not represented. A missing
  landmark gives the point \<^verbatim>\<open>0,0\<close>.
\<close>

datatype svg_element =
    SvgRect
  | SvgPolygon "(jsnum \<times> jsnum) list"
  | SvgEllipse jsnum jsnum jsnum jsnum

record svg =
  svg_width :: jsnum
  svg_height :: jsnum
  elements :: "svg_element list"

definition eye_point :: "landmark list \<Rightarrow> jsnum \<Rightarrow> jsnum \<Rightarrow> nat \<Rightarrow> jsnum \<times> jsnum" where
  "eye_point landmarks W H idx =
     (case landmark_at landmarks idx of
        Some pt \<Rightarrow> (js_mul (x pt) W, js_mul (y pt) H)
      | None \<Rightarrow> (Fin 0, Fin 0))"

text \<open>\<^verbatim>\<open>landmarks[i]?.x * W\<close>: \<^verbatim>\<open>undefined * W\<close> is NaN.\<close>

definition opt_coord :: "landmark list \<Rightarrow> nat \<Rightarrow> (landmark \<Rightarrow> jsnum) \<Rightarrow> jsnum \<Rightarrow> jsnum" where
  "opt_coord landmarks i field scale =
     (case landmark_at landmarks i of Some pt \<Rightarrow> js_mul (field pt) scale | None \<Rightarrow> NaN)"

definition generateMaskBuffer :: "landmark list \<Rightarrow> jsnum \<Rightarrow> jsnum \<Rightarrow> svg" where
  "generateMaskBuffer landmarks W H =
     (let leftEyePoints = map (eye_point landmarks W H) LEFT_EYE;
          rightEyePoints = map (eye_point landmarks W H) RIGHT_EYE;
          mLeft = js_or_zero (opt_coord landmarks (MOUTH_PTS ! 0) x W);
          mTop = js_or_zero (opt_coord landmarks (MOUTH_PTS ! 1) y H);
          mRight = js_or_zero (opt_coord landmarks (MOUTH_PTS ! 2) x W);
          mBottom = js_or_zero (opt_coord landmarks (MOUTH_PTS ! 3) y H);
          mCX = js_div (js_add mLeft mRight) (Fin 2);
          mCY = js_div (js_add mTop mBottom) (Fin 2);
          mRX = js_max (js_mul (js_sub mRight mLeft) (Fin 0.35)) (Fin 10);
          mRY = js_max (js_mul (js_sub mBottom mTop) (Fin 0.45)) (Fin 10)
      in \<lparr> svg_width = W, svg_height = H,
           elements = [SvgRect, SvgPolygon leftEyePoints, SvgPolygon rightEyePoints,
                       SvgEllipse mCX mCY mRX mRY] \<rparr>)"

text \<open>The pixel position of landmark \<^verbatim>\<open>idx\<close>: \<^verbatim>\<open>{landmark[idx].x * W, landmark[idx].y * H}\<close>.\<close>

definition pixel_of :: "landmark list \<Rightarrow> jsnum \<Rightarrow> jsnum \<Rightarrow> nat \<Rightarrow> jsnum \<times> jsnum" where
  "pixel_of lm W H idx = (js_mul (x (lm ! idx)) W, js_mul (y (lm ! idx)) H)"

text \<open>A closed polygon sub-path through the given vertices: move, lines, close.\<close>

definition polygon_subpath :: "(jsnum \<times> jsnum) list \<Rightarrow> path2d" where
  "polygon_subpath vs =
     (case vs of
        [] \<Rightarrow> []
      | v # rest \<Rightarrow> MoveTo (fst v) (snd v) # map (\<lambda>w. LineTo (fst w) (snd w)) rest @ [ClosePath])"


section \<open>Texture cache and generator (\<^verbatim>\<open>services/textureGenerator.ts\<close>)\<close>

datatype quality = Low | Medium | High | Ultra

record TextureGenerationRequest =
  req_prompt :: string
  req_negativePrompt :: "string option"
  req_style :: "string option"
  req_quality :: "quality option"
  req_seed :: "jsnum option"
  req_steps :: "jsnum option"
  req_guidance :: "jsnum option"

record TextureGenerationResponse =
  baseColor :: "8 word list"
  normalMap :: "8 word list"
  roughnessMap :: "8 word list"
  metalnessMap :: "8 word list"
  aoMap :: "8 word list option"
  emissiveMap :: "8 word list option"
  tex_width :: jsnum
  tex_height :: jsnum
  tex_seed :: jsnum
  generationTime :: jsnum

text \<open>
  The cache is a JavaScript \<^verbatim>\<open>Map\<close> from keys to \<^verbatim>\<open>{data, timestamp}\<close>. A \<^verbatim>\<open>Map\<close> keeps its
  entries in insertion order: \<^verbatim>\<open>set\<close> on a present key replaces the value where it stands, on
  a new key it appends (\<^const>\<open>AList.update\<close>); \<^verbatim>\<open>delete\<close> removes the entry
  (\<^const>\<open>AList.delete\<close>). \<^verbatim>\<open>Date.now()\<close> is an input of the operation that reads it, in
  milliseconds.
\<close>

record cache_entry =
  data :: TextureGenerationResponse
  timestamp :: int

type_synonym TextureCache = "(string \<times> cache_entry) list"

definition maxSize :: nat where "maxSize = 20"

definition ttl :: int where "ttl = 24 * 60 * 60 * 1000"

text \<open>
  \<^verbatim>\<open>Array.from(entries).sort(by timestamp)[0][0]\<close>: the sort is stable, as \<^const>\<open>sort_key\<close>
  is. It is read only when the cache holds at least \<^const>\<open>maxSize\<close> entries, so the sorted
  array has a first element.
\<close>

definition oldestKey :: "TextureCache \<Rightarrow> string" where
  "oldestKey c = fst (hd (sort_key (\<lambda>e. timestamp (snd e)) c))"

definition cache_set :: "string \<Rightarrow> TextureGenerationResponse \<Rightarrow> int \<Rightarrow> TextureCache \<Rightarrow> TextureCache" where
  "cache_set key val now c =
     (let c1 = (if maxSize \<le> length c then AList.delete (oldestKey c) c else c)
      in AList.update key \<lparr> data = val, timestamp = now \<rparr> c1)"

definition cache_get :: "string \<Rightarrow> int \<Rightarrow> TextureCache \<Rightarrow> TextureGenerationResponse option \<times> TextureCache" where
  "cache_get key now c =
     (case map_of c key of
        None \<Rightarrow> (None, c)
      | Some entry \<Rightarrow>
          if now - timestamp entry > ttl then (None, AList.delete key c)
          else (Some (data entry), c))"


text \<open>The template \<^verbatim>\<open>`${prompt}_${style}_${quality}`\<close>; a missing field prints as \<^verbatim>\<open>undefined\<close>.\<close>

definition quality_name :: "quality \<Rightarrow> string" where
  "quality_name q = (case q of Low \<Rightarrow> ''low'' | Medium \<Rightarrow> ''medium'' | High \<Rightarrow> ''high''
                     | Ultra \<Rightarrow> ''ultra'')"

definition generateKey :: "TextureGenerationRequest \<Rightarrow> string" where
  "generateKey request =
     req_prompt request @ ''_'' @
     (case req_style request of None \<Rightarrow> ''undefined'' | Some s \<Rightarrow> s) @ ''_'' @
     (case req_quality request of None \<Rightarrow> ''undefined'' | Some q \<Rightarrow> quality_name q)"

text \<open>
  The generator: its cache and its in-flight flag. \<^verbatim>\<open>generate\<close> is an \<^verbatim>\<open>async\<close> function. It
  runs without interruption up to its \<^verbatim>\<open>await\<close> of the remote call (\<open>generate_enter\<close>): it
  has then returned the cached response, thrown, or set the flag and suspended. When the remote
  call settles, with a response or with an error, the function resumes (\<open>generate_resume\<close>).
\<close>

record AITextureGenerator =
  cache :: TextureCache
  isGenerating :: bool

datatype outcome = Returned TextureGenerationResponse | Threw js_error | Awaiting

definition generate_enter ::
  "TextureGenerationRequest \<Rightarrow> int \<Rightarrow> AITextureGenerator \<Rightarrow> outcome \<times> AITextureGenerator" where
  "generate_enter request now g =
     (let cacheKey = generateKey request;
          (cached, c) = cache_get cacheKey now (cache g)
      in case cached of
           Some r \<Rightarrow> (Returned r, g\<lparr>cache := c\<rparr>)
         | None \<Rightarrow>
             if isGenerating g
             then (Threw (Error ''Generation already in progress''), g\<lparr>cache := c\<rparr>)
             else (Awaiting, g\<lparr>cache := c, isGenerating := True\<rparr>))"

definition generate_resume ::
  "TextureGenerationRequest \<Rightarrow> js_error + TextureGenerationResponse \<Rightarrow> int \<Rightarrow> AITextureGenerator
     \<Rightarrow> outcome \<times> AITextureGenerator" where
  "generate_resume request settled now g =
     (case settled of
        Inr response \<Rightarrow>
          (Returned response,
           g\<lparr>cache := cache_set (generateKey request) response now (cache g), isGenerating := False\<rparr>)
      | Inl e \<Rightarrow> (Threw e, g\<lparr>isGenerating := False\<rparr>))"

text \<open>\<^verbatim>\<open>generateStreaming\<close> up to its first suspension: it tests the flag before anything else.\<close>

definition generateStreaming_enter :: "AITextureGenerator \<Rightarrow> outcome \<times> AITextureGenerator" where
  "generateStreaming_enter g =
     (if isGenerating g then (Threw (Error ''Generation already in progress''), g)
      else (Awaiting, g\<lparr>isGenerating := True\<rparr>))"

section \<open>Prompt processor (\<^verbatim>\<open>services/materialSystem.ts\<close>)\<close>

text \<open>
  A string is a list of code units; the model covers the code units below 256. In that range
  \<^verbatim>\<open>trim\<close> strips tab, line feed, vertical tab, form feed, carriage return, space and the
  no-break space, and \<^verbatim>\<open>toLowerCase\<close> maps the letters \<^verbatim>\<open>A\<close> to \<^verbatim>\<open>Z\<close> and the capital letters of
  the Latin-1 block to their small forms.
\<close>

definition is_whitespace :: "char \<Rightarrow> bool" where
  "is_whitespace c \<longleftrightarrow> (of_char c :: nat) \<in> {9, 10, 11, 12, 13, 32, 160}"

definition js_trim :: "string \<Rightarrow> string" where
  "js_trim s = rev (dropWhile is_whitespace (rev (dropWhile is_whitespace s)))"

definition lower_char :: "char \<Rightarrow> char" where
  "lower_char c =
     (let n = (of_char c :: nat)
      in if (65 \<le> n \<and> n \<le> 90) \<or> (192 \<le> n \<and> n \<le> 222 \<and> n \<noteq> 215) then char_of (n + 32) else c)"

definition toLowerCase :: "string \<Rightarrow> string" where
  "toLowerCase s = map lower_char s"

text \<open>\<^verbatim>\<open>s.includes(w)\<close>: \<^verbatim>\<open>w\<close> occurs in \<^verbatim>\<open>s\<close> as a contiguous run.\<close>

fun js_includes :: "string \<Rightarrow> string \<Rightarrow> bool" where
  "js_includes [] w = (w = [])"
| "js_includes (c # cs) w = (take (length w) (c # cs) = w \<or> js_includes cs w)"

text \<open>\<^verbatim>\<open>parts.join(sep)\<close>.\<close>

fun js_join :: "string \<Rightarrow> string list \<Rightarrow> string" where
  "js_join sep [] = []"
| "js_join sep [p] = p"
| "js_join sep (p # q # rest) = p @ sep @ js_join sep (q # rest)"

datatype style = Realistic | Artistic | Fantasy | Cyberpunk | Steampunk | Minimalist
datatype lighting = Studio | Natural | Dramatic | Soft
datatype material = Fabric | Metal | Ceramic | Plastic | Leather | Wood
datatype detailLevel = DetailLow | DetailMedium | DetailHigh | DetailExtreme

definition style_name :: "style \<Rightarrow> string" where
  "style_name s = (case s of Realistic \<Rightarrow> ''realistic'' | Artistic \<Rightarrow> ''artistic''
     | Fantasy \<Rightarrow> ''fantasy'' | Cyberpunk \<Rightarrow> ''cyberpunk'' | Steampunk \<Rightarrow> ''steampunk''
     | Minimalist \<Rightarrow> ''minimalist'')"

definition lighting_name :: "lighting \<Rightarrow> string" where
  "lighting_name l = (case l of Studio \<Rightarrow> ''studio'' | Natural \<Rightarrow> ''natural''
     | Dramatic \<Rightarrow> ''dramatic'' | Soft \<Rightarrow> ''soft'')"

definition material_name :: "material \<Rightarrow> string" where
  "material_name m = (case m of Fabric \<Rightarrow> ''fabric'' | Metal \<Rightarrow> ''metal'' | Ceramic \<Rightarrow> ''ceramic''
     | Plastic \<Rightarrow> ''plastic'' | Leather \<Rightarrow> ''leather'' | Wood \<Rightarrow> ''wood'')"

definition detail_name :: "detailLevel \<Rightarrow> string" where
  "detail_name d = (case d of DetailLow \<Rightarrow> ''low'' | DetailMedium \<Rightarrow> ''medium''
     | DetailHigh \<Rightarrow> ''high'' | DetailExtreme \<Rightarrow> ''extreme'')"

record PromptConfig =
  cfg_style :: "style option"
  cfg_quality :: "quality option"
  cfg_lighting :: "lighting option"
  cfg_material :: "material option"
  cfg_detailLevel :: "detailLevel option"

record EnhancedPrompt =
  original :: string
  enhanced :: string
  ep_style :: string
  ep_quality :: string
  ep_lighting :: string
  ep_material :: string
  ep_detailLevel :: string
  tokens :: nat

text \<open>The preset tables, from key to phrase.\<close>

definition STYLE_PRESETS :: "(string \<times> string) list" where
  "STYLE_PRESETS = [
     (''realistic'', ''photorealistic, 4K, professional photography, detailed, high quality''),
     (''artistic'', ''artistic rendering, painted, stylized, creative, unique''),
     (''fantasy'', ''fantasy art, magical, mystical, ethereal, otherworldly''),
     (''cyberpunk'', ''cyberpunk, neon, futuristic, high-tech, glowing''),
     (''steampunk'', ''steampunk, vintage, mechanical, brass, gears''),
     (''minimalist'', ''minimalist, clean, simple, elegant, modern'')]"

definition QUALITY_PRESETS :: "(string \<times> string) list" where
  "QUALITY_PRESETS = [
     (''low'', ''512x512 resolution''),
     (''medium'', ''1024x1024 resolution, good quality''),
     (''high'', ''2048x2048 resolution, excellent quality, highly detailed''),
     (''ultra'', ''4096x4096 resolution, ultra high quality, extreme detail'')]"

definition LIGHTING_PRESETS :: "(string \<times> string) list" where
  "LIGHTING_PRESETS = [
     (''studio'', ''studio lighting, professional lighting setup, key light, fill light''),
     (''natural'', ''natural lighting, daylight, soft shadows, outdoor''),
     (''dramatic'', ''dramatic lighting, high contrast, moody, cinematic''),
     (''soft'', ''soft lighting, diffused, gentle shadows, flattering'')]"

definition MATERIAL_PRESETS :: "(string \<times> string) list" where
  "MATERIAL_PRESETS = [
     (''fabric'', ''fabric texture, cloth, woven, soft appearance''),
     (''metal'', ''metallic, shiny, reflective, polished metal''),
     (''ceramic'', ''ceramic, glossy, smooth, porcelain-like''),
     (''plastic'', ''plastic, matte, synthetic, uniform finish''),
     (''leather'', ''leather texture, supple, rich, aged patina''),
     (''wood'', ''wood texture, natural grain, warm tones'')]"

definition DETAIL_PRESETS :: "(string \<times> string) list" where
  "DETAIL_PRESETS = [
     (''low'', ''simple design, minimal details''),
     (''medium'', ''moderate details, balanced complexity''),
     (''high'', ''intricate details, complex patterns, fine textures''),
     (''extreme'', ''extremely detailed, hyper-detailed, every surface textured'')]"

definition minLength :: nat where "minLength = 5"
definition maxLength :: nat where "maxLength = 500"

definition inappropriateWords :: "string list" where
  "inappropriateWords = [''violence'', ''hate'', ''explicit'']"

record validation =
  valid :: bool
  error :: "string option"

definition validatePrompt :: "string \<Rightarrow> validation" where
  "validatePrompt prompt =
     (if prompt = [] then \<lparr> valid = False, error = Some ''Prompt must be a non-empty string'' \<rparr>
      else let trimmed = js_trim prompt in
        if length trimmed < minLength
        then \<lparr> valid = False, error = Some ''Prompt must be at least 5 characters'' \<rparr>
        else if length trimmed > maxLength
        then \<lparr> valid = False, error = Some ''Prompt must be less than 500 characters'' \<rparr>
        else if list_ex (\<lambda>word. js_includes (toLowerCase trimmed) word) inappropriateWords
        then \<lparr> valid = False, error = Some ''Prompt contains inappropriate content'' \<rparr>
        else \<lparr> valid = True, error = None \<rparr>)"

text \<open>\<^verbatim>\<open>Math.ceil(text.length / 4)\<close>.\<close>

definition estimateTokens :: "string \<Rightarrow> nat" where
  "estimateTokens text = (length text + 3) div 4"

text \<open>\<^verbatim>\<open>parts.filter(p => p)\<close> drops a missing phrase and an empty one.\<close>

definition truthy_parts :: "string option list \<Rightarrow> string list" where
  "truthy_parts parts = concat (map (\<lambda>p. case p of None \<Rightarrow> [] | Some s \<Rightarrow> if s = [] then [] else [s]) parts)"

definition enhancePrompt :: "string \<Rightarrow> PromptConfig \<Rightarrow> js_error + EnhancedPrompt" where
  "enhancePrompt prompt config =
     (let validation = validatePrompt prompt in
      if \<not> valid validation
      then Inl (Error (case error validation of Some msg \<Rightarrow> msg | None \<Rightarrow> []))
      else
        let style = (case cfg_style config of Some s \<Rightarrow> s | None \<Rightarrow> Realistic);
            quality = (case cfg_quality config of Some q \<Rightarrow> q | None \<Rightarrow> High);
            lighting = (case cfg_lighting config of Some l \<Rightarrow> l | None \<Rightarrow> Studio);
            material = (case cfg_material config of Some m \<Rightarrow> m | None \<Rightarrow> Metal);
            detail = (case cfg_detailLevel config of Some d \<Rightarrow> d | None \<Rightarrow> DetailHigh);
            parts = [Some (js_trim prompt),
                     map_of STYLE_PRESETS (style_name style),
                     map_of QUALITY_PRESETS (quality_name quality),
                     map_of LIGHTING_PRESETS (lighting_name lighting),
                     map_of MATERIAL_PRESETS (material_name material),
                     map_of DETAIL_PRESETS (detail_name detail),
                     Some ''mask, face mask, wearable art''];
            enh = js_join '', '' (truthy_parts parts)
        in Inr \<lparr> original = prompt, enhanced = enh,
                 ep_style = style_name style, ep_quality = quality_name quality,
                 ep_lighting = lighting_name lighting, ep_material = material_name material,
                 ep_detailLevel = detail_name detail, tokens = estimateTokens enh \<rparr>)"

section \<open>Vocabulary of the properties\<close>

subsection \<open>Prompt parts\<close>

text \<open>
  The enhanced prompt as the specification words it: the trimmed phrase and the five preset
  phrases, six parts joined by comma and space. \<open>preset\<close> reads a phrase from a table.
\<close>

definition preset :: "(string \<times> string) list \<Rightarrow> string \<Rightarrow> string" where
  "preset table key = (case map_of table key of Some phrase \<Rightarrow> phrase | None \<Rightarrow> [])"

definition six_part_prompt :: "string \<Rightarrow> PromptConfig \<Rightarrow> string" where
  "six_part_prompt prompt config =
     js_join '', ''
       [js_trim prompt,
        preset STYLE_PRESETS (style_name (case cfg_style config of Some s \<Rightarrow> s | None \<Rightarrow> Realistic)),
        preset QUALITY_PRESETS (quality_name (case cfg_quality config of Some q \<Rightarrow> q | None \<Rightarrow> High)),
        preset LIGHTING_PRESETS (lighting_name (case cfg_lighting config of Some l \<Rightarrow> l | None \<Rightarrow> Studio)),
        preset MATERIAL_PRESETS (material_name (case cfg_material config of Some m \<Rightarrow> m | None \<Rightarrow> Metal)),
        preset DETAIL_PRESETS (detail_name (case cfg_detailLevel config of Some d \<Rightarrow> d | None \<Rightarrow> DetailHigh))]"

text \<open>The configuration \<^verbatim>\<open>{}\<close>, which selects every default.\<close>

definition default_config :: PromptConfig where
  "default_config = \<lparr> cfg_style = None, cfg_quality = None, cfg_lighting = None,
     cfg_material = None, cfg_detailLevel = None \<rparr>"

subsection \<open>Paths, radii and sample landmarks\<close>

text \<open>The vertices of a path: the points of its \<^verbatim>\<open>moveTo\<close> and \<^verbatim>\<open>lineTo\<close> calls, in order.\<close>

fun path_vertices :: "path2d \<Rightarrow> (jsnum \<times> jsnum) list" where
  "path_vertices [] = []"
| "path_vertices (MoveTo a b # p) = (a, b) # path_vertices p"
| "path_vertices (LineTo a b # p) = (a, b) # path_vertices p"
| "path_vertices (_ # p) = path_vertices p"

text \<open>
  The three radii that \<^verbatim>\<open>buildMaskPath\<close> passes to the canvas, for landmarks that are present:
  \<^verbatim>\<open>cornerR = faceW * 0.25\<close>, \<^verbatim>\<open>mRX = (mRight - mLeft) * 0.35\<close> and
  \<^verbatim>\<open>mRY = (mBottom - mTop) * 0.45\<close>.
\<close>

definition corner_radius :: "landmark list \<Rightarrow> jsnum \<Rightarrow> jsnum \<Rightarrow> jsnum" where
  "corner_radius lm W H =
     js_mul (js_sub (fst (pixel_of lm W H RIGHT_EAR)) (fst (pixel_of lm W H LEFT_EAR))) (Fin 0.25)"

definition mouth_radius_x :: "landmark list \<Rightarrow> jsnum \<Rightarrow> jsnum \<Rightarrow> jsnum" where
  "mouth_radius_x lm W H =
     js_mul (js_sub (fst (pixel_of lm W H (MOUTH_PTS ! 2))) (fst (pixel_of lm W H (MOUTH_PTS ! 0))))
       (Fin 0.35)"

definition mouth_radius_y :: "landmark list \<Rightarrow> jsnum \<Rightarrow> jsnum \<Rightarrow> jsnum" where
  "mouth_radius_y lm W H =
     js_mul (js_sub (snd (pixel_of lm W H (MOUTH_PTS ! 3))) (snd (pixel_of lm W H (MOUTH_PTS ! 1))))
       (Fin 0.45)"

text \<open>
  Sample landmarks: 468 points, point \<open>i\<close> at \<open>(i / 512, i / 1024, 0)\<close>, so that on a 512 by 512
  image landmark \<open>i\<close> lies at the pixel \<open>(i, i / 2)\<close>. And a closed mouth: 468 points at the
  image centre.
\<close>

definition sample_landmarks :: "landmark list" where
  "sample_landmarks = map (\<lambda>i. \<lparr> x = Fin (real i / 512), y = Fin (real i / 1024), z = Fin 0 \<rparr>) [0..<468]"

definition centre_landmarks :: "landmark list" where
  "centre_landmarks = replicate 468 \<lparr> x = Fin 0.5, y = Fin 0.5, z = Fin 0 \<rparr>"

subsection \<open>Runs of the cache\<close>








text \<open>
  Sample requests: 21 requests whose prompts are one to 21 letters \<^verbatim>\<open>a\<close>, all of style
  \<^verbatim>\<open>realistic\<close> and quality \<^verbatim>\<open>high\<close>, and the insertion of one response under the key of
  each, one second apart.
\<close>

definition sample_response :: TextureGenerationResponse where
  "sample_response = \<lparr> baseColor = [], normalMap = [], roughnessMap = [], metalnessMap = [],
     aoMap = None, emissiveMap = None, tex_width = Fin 0, tex_height = Fin 0, tex_seed = Fin 0,
     generationTime = Fin 0 \<rparr>"

definition sample_request :: "nat \<Rightarrow> TextureGenerationRequest" where
  "sample_request i = \<lparr> req_prompt = replicate (Suc i) (CHR ''a''), req_negativePrompt = None,
     req_style = Some ''realistic'', req_quality = Some High, req_seed = None, req_steps = None,
     req_guidance = None \<rparr>"



text \<open>
  A generator with a generation in flight whose cache holds the sample response under the key of
  the first sample request, stored at time 0.
\<close>

definition busy_generator :: AITextureGenerator where
  "busy_generator =
     \<lparr> cache = [(generateKey (sample_request 0), \<lparr> data = sample_response, timestamp = 0 \<rparr>)],
       isGenerating = True \<rparr>"

subsection \<open>Tolerance\<close>

text \<open>\<^verbatim>\<open>Math.abs\<close>, and two numbers that are finite and at a distance of at most \<open>1e-9\<close>.\<close>

fun js_abs :: "jsnum \<Rightarrow> jsnum" where
  "js_abs NaN = NaN"
| "js_abs PInf = PInf"
| "js_abs NInf = PInf"
| "js_abs (Fin a) = Fin \<bar>a\<bar>"

definition within_tolerance :: "jsnum \<Rightarrow> jsnum \<Rightarrow> bool" where
  "within_tolerance a b = js_le (js_abs (js_sub a b)) (Fin (1 / 10 ^ 9))"

section \<open>Validation gate\<close>

lemma landmark_ok_iff: "landmark_ok l \<longleftrightarrow> well_formed l"
  by (cases "x l"; cases "y l"; cases "z l")
     (simp_all add: landmark_ok_def well_formed_def in_range_def js_ge_def)

lemma validateLandmarks_iff:
  "validateLandmarks ls \<longleftrightarrow> ls \<noteq> [] \<and> (\<forall>l \<in> set ls. well_formed l)"
  by (simp add: validateLandmarks_def list_all_iff landmark_ok_iff)

lemma in_range_finite: "in_range lo hi v \<Longrightarrow> js_isFinite v"
  by (cases v) (simp_all add: in_range_def)

lemma in_range_not_outside: "in_range lo hi v \<Longrightarrow> \<not> outside lo hi v"
  by (cases v) (simp_all add: in_range_def outside_def js_gt_def)

text \<open>
  Claim C3. \<^verbatim>\<open>validateLandmarks\<close> returns false for the empty sequence, for a sequence with a
  point that has a non-finite coordinate (NaN or an infinity), for a sequence with a point whose
  \<^verbatim>\<open>x\<close> or \<^verbatim>\<open>y\<close> is below 0 or above 1, and for a sequence with a point whose \<^verbatim>\<open>z\<close> is below -1
  or above 1. It returns true for every non-empty sequence, in particular one of 468 points, all
  of whose points have finite coordinates within these ranges.
\<close>

theorem validateLandmarks_gate:
  "\<not> validateLandmarks [] \<and>
   (\<forall>ls l. l \<in> set ls \<and> (\<not> js_isFinite (x l) \<or> \<not> js_isFinite (y l) \<or> \<not> js_isFinite (z l))
      \<longrightarrow> \<not> validateLandmarks ls) \<and>
   (\<forall>ls l. l \<in> set ls \<and> (outside 0 1 (x l) \<or> outside 0 1 (y l)) \<longrightarrow> \<not> validateLandmarks ls) \<and>
   (\<forall>ls l. l \<in> set ls \<and> outside (- 1) 1 (z l) \<longrightarrow> \<not> validateLandmarks ls) \<and>
   (\<forall>ls. ls \<noteq> [] \<and> (\<forall>l \<in> set ls. well_formed l) \<longrightarrow> validateLandmarks ls) \<and>
   (\<forall>ls. length ls = 468 \<and> (\<forall>l \<in> set ls. well_formed l) \<longrightarrow> validateLandmarks ls)"
proof (intro conjI allI impI)
  show "\<not> validateLandmarks []"
    by (simp add: validateLandmarks_def)
next
  fix ls :: "landmark list" and l :: landmark
  assume "l \<in> set ls \<and> (\<not> js_isFinite (x l) \<or> \<not> js_isFinite (y l) \<or> \<not> js_isFinite (z l))"
  then have "l \<in> set ls" and "\<not> well_formed l"
    by (auto simp: well_formed_def dest: in_range_finite)
  then show "\<not> validateLandmarks ls"
    by (auto simp: validateLandmarks_iff)
next
  fix ls :: "landmark list" and l :: landmark
  assume "l \<in> set ls \<and> (outside 0 1 (x l) \<or> outside 0 1 (y l))"
  then have "l \<in> set ls" and "\<not> well_formed l"
    by (auto simp: well_formed_def dest: in_range_not_outside)
  then show "\<not> validateLandmarks ls"
    by (auto simp: validateLandmarks_iff)
next
  fix ls :: "landmark list" and l :: landmark
  assume "l \<in> set ls \<and> outside (- 1) 1 (z l)"
  then have "l \<in> set ls" and "\<not> well_formed l"
    by (auto simp: well_formed_def dest: in_range_not_outside)
  then show "\<not> validateLandmarks ls"
    by (auto simp: validateLandmarks_iff)
next
  fix ls :: "landmark list"
  assume "ls \<noteq> [] \<and> (\<forall>l \<in> set ls. well_formed l)"
  then show "validateLandmarks ls"
    by (simp add: validateLandmarks_iff)
next
  fix ls :: "landmark list"
  assume "length ls = 468 \<and> (\<forall>l \<in> set ls. well_formed l)"
  then have "ls \<noteq> []" and "\<forall>l \<in> set ls. well_formed l"
    by auto
  then show "validateLandmarks ls"
    by (simp add: validateLandmarks_iff)
qed

text \<open>The gate at five single points, one per clause, and at 468 copies of the image centre.\<close>

theorem validateLandmarks_gate_witness:
  "\<not> validateLandmarks [\<lparr>x = NaN, y = Fin 0.5, z = Fin 0\<rparr>] \<and>
   \<not> validateLandmarks [\<lparr>x = Fin 0.5, y = PInf, z = Fin 0\<rparr>] \<and>
   \<not> validateLandmarks [\<lparr>x = Fin 0.5, y = Fin 1.5, z = Fin 0\<rparr>] \<and>
   \<not> validateLandmarks [\<lparr>x = Fin 0.5, y = Fin 0.5, z = Fin (- 2)\<rparr>] \<and>
   validateLandmarks [\<lparr>x = Fin 0, y = Fin 1, z = Fin (- 1)\<rparr>] \<and>
   validateLandmarks (replicate 468 \<lparr>x = Fin 0.5, y = Fin 0.5, z = Fin 0\<rparr>)"
proof -
  let ?a = "\<lparr>x = NaN, y = Fin 0.5, z = Fin 0\<rparr>"
  let ?b = "\<lparr>x = Fin 0.5, y = PInf, z = Fin 0\<rparr>"
  let ?c = "\<lparr>x = Fin 0.5, y = Fin 1.5, z = Fin 0\<rparr>"
  let ?d = "\<lparr>x = Fin 0.5, y = Fin 0.5, z = Fin (- 2)\<rparr>"
  let ?e = "\<lparr>x = Fin 0, y = Fin 1, z = Fin (- 1)\<rparr>"
  let ?f = "\<lparr>x = Fin 0.5, y = Fin 0.5, z = Fin 0\<rparr>"
  note g = validateLandmarks_gate
  have 1: "\<not> validateLandmarks [?a]"
    using g by (elim conjE allE [of _ "[?a]"] allE [of _ ?a]) simp
  have 2: "\<not> validateLandmarks [?b]"
    using g by (elim conjE allE [of _ "[?b]"] allE [of _ ?b]) simp
  have 3: "\<not> validateLandmarks [?c]"
    using g by (elim conjE allE [of _ "[?c]"] allE [of _ ?c]) (simp add: outside_def js_gt_def)
  have 4: "\<not> validateLandmarks [?d]"
    using g by (elim conjE allE [of _ "[?d]"] allE [of _ ?d]) (simp add: outside_def js_gt_def)
  have 5: "validateLandmarks [?e]"
    using g by (elim conjE allE [of _ "[?e]"]) (simp add: well_formed_def in_range_def)
  have 6: "validateLandmarks (replicate 468 ?f)"
    using g by (elim conjE allE [of _ "replicate 468 ?f"]) (simp add: well_formed_def in_range_def)
  from 1 2 3 4 5 6 show ?thesis by blast
qed

section \<open>Triangulation bounds\<close>

text \<open>
  Claim C4. \<^verbatim>\<open>validateTriangles\<close> returns false as soon as one index of the list is at least
  \<^verbatim>\<open>landmarkCount\<close>. For the indices of the static table it returns false with
  \<^verbatim>\<open>landmarkCount = 10\<close> and true with \<^verbatim>\<open>landmarkCount = 468\<close>.
\<close>

theorem validateTriangles_bounds:
  "(\<forall>triangles landmarkCount. (\<exists>index \<in> set triangles. landmarkCount \<le> index)
      \<longrightarrow> \<not> validateTriangles triangles landmarkCount) \<and>
   \<not> validateTriangles getFaceTriangles 10 \<and>
   validateTriangles getFaceTriangles 468"
proof (intro conjI allI impI)
  fix triangles :: "int list" and landmarkCount :: int
  assume "\<exists>index \<in> set triangles. landmarkCount \<le> index"
  then show "\<not> validateTriangles triangles landmarkCount"
    by (fastforce simp: validateTriangles_def list_all_iff)
next
  show "\<not> validateTriangles getFaceTriangles 10"
    by (simp add: validateTriangles_def getFaceTriangles_def FACE_MESH_TRIANGLES_def)
next
  show "validateTriangles getFaceTriangles 468"
    by (simp add: validateTriangles_def getFaceTriangles_def FACE_MESH_TRIANGLES_def)
qed

text \<open>A list with the index 12 against ten landmarks.\<close>

theorem validateTriangles_bounds_witness:
  "(\<exists>index \<in> set [0, 5, 12 :: int]. 10 \<le> index) \<and> \<not> validateTriangles [0, 5, 12] 10"
proof -
  have h: "\<exists>index \<in> set [0, 5, 12 :: int]. 10 \<le> index" by simp
  from validateTriangles_bounds have "\<not> validateTriangles [0, 5, 12] 10"
    using h by blast
  with h show ?thesis by blast
qed

section \<open>Face scale\<close>

lemma js_le_trans: "js_le a b \<Longrightarrow> js_le b c \<Longrightarrow> js_le a c"
  by (cases a; cases b; cases c) simp_all

lemma js_le_refl: "\<not> js_isNaN a \<Longrightarrow> js_le a a"
  by (cases a) simp_all

lemma js_min_props:
  assumes "\<not> js_isNaN a" and "\<not> js_isNaN b"
  shows "\<not> js_isNaN (js_min a b)" and "js_le (js_min a b) a" and "js_le (js_min a b) b"
    and "js_min a b = a \<or> js_min a b = b"
  using assms by (cases a; cases b; simp add: js_min_def)+

lemma js_max_props:
  assumes "\<not> js_isNaN a" and "\<not> js_isNaN b"
  shows "\<not> js_isNaN (js_max a b)" and "js_le a (js_max a b)" and "js_le b (js_max a b)"
    and "js_max a b = a \<or> js_max a b = b"
  using assms by (cases a; cases b; simp add: js_max_def)+

lemma foldl_js_min:
  assumes "\<not> js_isNaN i" and "\<forall>v \<in> set vs. \<not> js_isNaN v"
  shows "\<not> js_isNaN (foldl js_min i vs) \<and> js_le (foldl js_min i vs) i \<and>
         (\<forall>v \<in> set vs. js_le (foldl js_min i vs) v) \<and>
         (foldl js_min i vs = i \<or> foldl js_min i vs \<in> set vs)"
  using assms
proof (induction vs arbitrary: i)
  case Nil
  then show ?case by (simp add: js_le_refl)
next
  case (Cons v vs)
  let ?j = "js_min i v"
  let ?r = "foldl js_min ?j vs"
  from Cons.prems have nv: "\<not> js_isNaN v" and rest: "\<forall>w \<in> set vs. \<not> js_isNaN w"
    by simp_all
  note m = js_min_props [OF Cons.prems(1) nv]
  from Cons.IH [OF m(1) rest]
  have r: "\<not> js_isNaN ?r" "js_le ?r ?j" "\<forall>w \<in> set vs. js_le ?r w" "?r = ?j \<or> ?r \<in> set vs"
    by blast+
  have "js_le ?r i" using r(2) m(2) by (rule js_le_trans)
  moreover have "js_le ?r v" using r(2) m(3) by (rule js_le_trans)
  moreover have "?r = i \<or> ?r \<in> set (v # vs)" using r(4) m(4) by auto
  ultimately show ?case using r(1) r(3) by simp
qed

lemma foldl_js_max:
  assumes "\<not> js_isNaN i" and "\<forall>v \<in> set vs. \<not> js_isNaN v"
  shows "\<not> js_isNaN (foldl js_max i vs) \<and> js_le i (foldl js_max i vs) \<and>
         (\<forall>v \<in> set vs. js_le v (foldl js_max i vs)) \<and>
         (foldl js_max i vs = i \<or> foldl js_max i vs \<in> set vs)"
  using assms
proof (induction vs arbitrary: i)
  case Nil
  then show ?case by (simp add: js_le_refl)
next
  case (Cons v vs)
  let ?j = "js_max i v"
  let ?r = "foldl js_max ?j vs"
  from Cons.prems have nv: "\<not> js_isNaN v" and rest: "\<forall>w \<in> set vs. \<not> js_isNaN w"
    by simp_all
  note m = js_max_props [OF Cons.prems(1) nv]
  from Cons.IH [OF m(1) rest]
  have r: "\<not> js_isNaN ?r" "js_le ?j ?r" "\<forall>w \<in> set vs. js_le w ?r" "?r = ?j \<or> ?r \<in> set vs"
    by blast+
  have "js_le i ?r" using m(2) r(2) by (rule js_le_trans)
  moreover have "js_le v ?r" using m(3) r(2) by (rule js_le_trans)
  moreover have "?r = i \<or> ?r \<in> set (v # vs)" using r(4) m(4) by auto
  ultimately show ?case using r(1) r(3) by simp
qed

text \<open>The six running bounds evolve independently.\<close>

lemma foldl_bounds_step:
  "bMinX (foldl bounds_step b ls) = foldl js_min (bMinX b) (map x ls) \<and>
   bMaxX (foldl bounds_step b ls) = foldl js_max (bMaxX b) (map x ls) \<and>
   bMinY (foldl bounds_step b ls) = foldl js_min (bMinY b) (map y ls) \<and>
   bMaxY (foldl bounds_step b ls) = foldl js_max (bMaxY b) (map y ls)"
  by (induction ls arbitrary: b) (simp_all add: bounds_step_def)

lemma bbox_width: "width (calculateFaceBoundingBox ls) =
    js_sub (foldl js_max NInf (map x ls)) (foldl js_min PInf (map x ls))"
  by (simp add: calculateFaceBoundingBox_def Let_def foldl_bounds_step bounds_init_def)

lemma bbox_height: "height (calculateFaceBoundingBox ls) =
    js_sub (foldl js_max NInf (map y ls)) (foldl js_min PInf (map y ls))"
  by (simp add: calculateFaceBoundingBox_def Let_def foldl_bounds_step bounds_init_def)

text \<open>The extent of a sequence of values along one axis.\<close>

lemma js_min_same: "js_min a a = a"
  by (cases a) (simp_all add: js_min_def)

lemma js_max_same: "js_max a a = a"
  by (cases a) (simp_all add: js_max_def)

lemma foldl_const_min: "\<forall>v \<in> set vs. v = a \<Longrightarrow> foldl js_min a vs = a"
  by (induction vs) (simp_all add: js_min_same)

lemma foldl_const_max: "\<forall>v \<in> set vs. v = a \<Longrightarrow> foldl js_max a vs = a"
  by (induction vs) (simp_all add: js_max_same)

lemma extent_const:
  assumes "\<forall>v \<in> set vs. v = a"
  shows "js_sub (foldl js_max NInf vs) (foldl js_min PInf vs) \<in> {NInf, Fin 0, NaN}"
proof (cases vs)
  case Nil
  then show ?thesis by (simp add: js_sub_def)
next
  case (Cons v ws)
  with assms have v: "v = a" and ws: "\<forall>w \<in> set ws. w = a" by simp_all
  have "js_min PInf a = a" "js_max NInf a = a"
    by (cases a; simp add: js_min_def js_max_def)+
  then have "foldl js_min PInf vs = a" "foldl js_max NInf vs = a"
    using Cons v ws by (simp_all add: foldl_const_min foldl_const_max)
  then show ?thesis by (cases a) (simp_all add: js_sub_def)
qed

lemma extent_finite:
  assumes fin: "\<forall>v \<in> set vs. js_isFinite v" and ne: "vs \<noteq> []"
  shows "\<exists>d. js_sub (foldl js_max NInf vs) (foldl js_min PInf vs) = Fin d \<and> 0 \<le> d \<and>
             (\<forall>a b. Fin a \<in> set vs \<and> Fin b \<in> set vs \<longrightarrow> a - b \<le> d)"
proof -
  have nn: "\<forall>v \<in> set vs. \<not> js_isNaN v"
    using fin by (metis js_isFinite.simps(2) js_isNaN.elims(2))
  let ?lo = "foldl js_min PInf vs" and ?hi = "foldl js_max NInf vs"
  from foldl_js_min [OF _ nn, of PInf]
  have lo: "\<forall>v \<in> set vs. js_le ?lo v" "?lo = PInf \<or> ?lo \<in> set vs" by simp_all
  from foldl_js_max [OF _ nn, of NInf]
  have hi: "\<forall>v \<in> set vs. js_le v ?hi" "?hi = NInf \<or> ?hi \<in> set vs" by simp_all
  from ne obtain v where v: "v \<in> set vs" by (cases vs) auto
  with fin obtain r where r: "v = Fin r" by (cases v) auto
  have "?lo \<noteq> PInf" using lo(1) v r by auto
  with lo(2) fin obtain m where m: "?lo = Fin m" by (cases ?lo) auto
  have "?hi \<noteq> NInf" using hi(1) v r by auto
  with hi(2) fin obtain M where M: "?hi = Fin M" by (cases ?hi) auto
  have bnd: "m \<le> a \<and> a \<le> M" if "Fin a \<in> set vs" for a
    using lo(1) hi(1) that m M by fastforce
  have "m \<le> M" using bnd [of r] v r by simp
  moreover have "a - b \<le> M - m" if "Fin a \<in> set vs" "Fin b \<in> set vs" for a b
    using bnd [OF that(1)] bnd [OF that(2)] by simp
  ultimately show ?thesis by (auto simp: m M js_sub_def)
qed

text \<open>
  Claim C10. On the empty sequence \<^verbatim>\<open>calculateOptimalFaceScale\<close> returns \<^verbatim>\<open>targetSize\<close> itself:
  the bounding box keeps its initial bounds \<^verbatim>\<open>Infinity\<close> and \<^verbatim>\<open>-Infinity\<close>, its width and
  height are \<^verbatim>\<open>-Infinity\<close>, their maximum is not positive, and nothing is divided.
\<close>

theorem empty_scale_is_targetSize:
  "calculateOptimalFaceScale [] targetSize = targetSize \<and>
   minX (calculateFaceBoundingBox []) = PInf \<and> maxX (calculateFaceBoundingBox []) = NInf \<and>
   minY (calculateFaceBoundingBox []) = PInf \<and> maxY (calculateFaceBoundingBox []) = NInf \<and>
   minZ (calculateFaceBoundingBox []) = PInf \<and> maxZ (calculateFaceBoundingBox []) = NInf \<and>
   width (calculateFaceBoundingBox []) = NInf \<and> height (calculateFaceBoundingBox []) = NInf"
  by (simp add: calculateOptimalFaceScale_def calculateFaceBoundingBox_def bounds_init_def
        js_sub_def js_max_def js_gt_def)

lemma scale_same_xy:
  assumes "\<forall>l \<in> set ls. x l = a \<and> y l = b"
  shows "calculateOptimalFaceScale ls t = t"
proof -
  let ?w = "width (calculateFaceBoundingBox ls)" and ?h = "height (calculateFaceBoundingBox ls)"
  have "?w \<in> {NInf, Fin 0, NaN}"
    unfolding bbox_width using assms by (intro extent_const [of _ a]) simp
  moreover have "?h \<in> {NInf, Fin 0, NaN}"
    unfolding bbox_height using assms by (intro extent_const [of _ b]) simp
  ultimately have "\<not> js_gt (js_max ?w ?h) (Fin 0)"
    by (auto simp: js_max_def js_gt_def)
  then show ?thesis
    by (simp add: calculateOptimalFaceScale_def Let_def)
qed

lemma scale_differing_xy:
  assumes fin: "\<forall>l \<in> set ls. js_isFinite (x l) \<and> js_isFinite (y l)"
    and p: "p \<in> set ls" and q: "q \<in> set ls" and ne: "x p \<noteq> x q \<or> y p \<noteq> y q"
  shows "js_gt (js_max (width (calculateFaceBoundingBox ls)) (height (calculateFaceBoundingBox ls))) (Fin 0) \<and>
         calculateOptimalFaceScale ls t =
           js_div t (js_max (width (calculateFaceBoundingBox ls)) (height (calculateFaceBoundingBox ls)))"
proof -
  let ?w = "width (calculateFaceBoundingBox ls)" and ?h = "height (calculateFaceBoundingBox ls)"
  from p have nonempty: "map x ls \<noteq> []" "map y ls \<noteq> []" by auto
  from fin have fx: "\<forall>v \<in> set (map x ls). js_isFinite v" and fy: "\<forall>v \<in> set (map y ls). js_isFinite v"
    by simp_all
  from extent_finite [OF fx nonempty(1)] obtain dx where
    dx: "?w = Fin dx" "0 \<le> dx" "\<And>a b. Fin a \<in> set (map x ls) \<Longrightarrow> Fin b \<in> set (map x ls) \<Longrightarrow> a - b \<le> dx"
    unfolding bbox_width by blast
  from extent_finite [OF fy nonempty(2)] obtain dy where
    dy: "?h = Fin dy" "0 \<le> dy" "\<And>a b. Fin a \<in> set (map y ls) \<Longrightarrow> Fin b \<in> set (map y ls) \<Longrightarrow> a - b \<le> dy"
    unfolding bbox_height by blast
  from fin p q obtain xp xq yp yq where
    c: "x p = Fin xp" "x q = Fin xq" "y p = Fin yp" "y q = Fin yq"
    by (metis js_isFinite.elims(2))
  have inx: "Fin xp \<in> set (map x ls)" "Fin xq \<in> set (map x ls)"
    using p q c by force+
  have iny: "Fin yp \<in> set (map y ls)" "Fin yq \<in> set (map y ls)"
    using p q c by force+
  have "0 < dx \<or> 0 < dy"
  proof (cases "xp = xq")
    case False
    with dx(3) [OF inx(1) inx(2)] dx(3) [OF inx(2) inx(1)] show ?thesis by linarith
  next
    case True
    with ne c have "yp \<noteq> yq" by simp
    with dy(3) [OF iny(1) iny(2)] dy(3) [OF iny(2) iny(1)] show ?thesis by linarith
  qed
  then have pos: "js_gt (js_max ?w ?h) (Fin 0)"
    using dx(1,2) dy(1,2) by (auto simp: js_max_def js_gt_def)
  then show ?thesis
    by (simp add: calculateOptimalFaceScale_def Let_def)
qed

text \<open>
  Claim C6, as amended. \<^verbatim>\<open>calculateOptimalFaceScale\<close> returns \<^verbatim>\<open>targetSize\<close> itself for every
  sequence whose points are all equal to one point, and more generally for every sequence whose
  points all have the same \<^verbatim>\<open>x\<close> and the same \<^verbatim>\<open>y\<close> (they may differ in \<^verbatim>\<open>z\<close>). For a
  sequence with finite \<^verbatim>\<open>x\<close> and \<^verbatim>\<open>y\<close> in which two points differ in \<^verbatim>\<open>x\<close> or in \<^verbatim>\<open>y\<close>, the
  larger of the bounding-box width and height is positive and the function returns
  \<^verbatim>\<open>targetSize\<close> divided by it.
\<close>

theorem face_scale_by_extent:
  "(\<forall>ls p t. (\<forall>l \<in> set ls. l = p) \<longrightarrow> calculateOptimalFaceScale ls t = t) \<and>
   (\<forall>ls a b t. (\<forall>l \<in> set ls. x l = a \<and> y l = b) \<longrightarrow> calculateOptimalFaceScale ls t = t) \<and>
   (\<forall>ls p q t.
      (\<forall>l \<in> set ls. js_isFinite (x l) \<and> js_isFinite (y l)) \<and> p \<in> set ls \<and> q \<in> set ls \<and>
      (x p \<noteq> x q \<or> y p \<noteq> y q) \<longrightarrow>
      js_gt (js_max (width (calculateFaceBoundingBox ls)) (height (calculateFaceBoundingBox ls))) (Fin 0) \<and>
      calculateOptimalFaceScale ls t =
        js_div t (js_max (width (calculateFaceBoundingBox ls)) (height (calculateFaceBoundingBox ls))))"
proof (intro conjI allI impI)
  fix ls :: "landmark list" and p :: landmark and t
  assume "\<forall>l \<in> set ls. l = p"
  then have "\<forall>l \<in> set ls. x l = x p \<and> y l = y p" by simp
  then show "calculateOptimalFaceScale ls t = t" by (rule scale_same_xy)
next
  fix ls :: "landmark list" and a b t
  assume "\<forall>l \<in> set ls. x l = a \<and> y l = b"
  then show "calculateOptimalFaceScale ls t = t" by (rule scale_same_xy)
next
  fix ls :: "landmark list" and p q :: landmark and t
  assume h: "(\<forall>l \<in> set ls. js_isFinite (x l) \<and> js_isFinite (y l)) \<and> p \<in> set ls \<and> q \<in> set ls \<and>
      (x p \<noteq> x q \<or> y p \<noteq> y q)"
  then have s: "js_gt (js_max (width (calculateFaceBoundingBox ls)) (height (calculateFaceBoundingBox ls))) (Fin 0) \<and>
         calculateOptimalFaceScale ls t =
           js_div t (js_max (width (calculateFaceBoundingBox ls)) (height (calculateFaceBoundingBox ls)))"
    by (intro scale_differing_xy [of ls p q]) blast+
  from s show "js_gt (js_max (width (calculateFaceBoundingBox ls)) (height (calculateFaceBoundingBox ls))) (Fin 0)"
    by (rule conjunct1)
  from s show "calculateOptimalFaceScale ls t =
           js_div t (js_max (width (calculateFaceBoundingBox ls)) (height (calculateFaceBoundingBox ls)))"
    by (rule conjunct2)
qed

text \<open>
  Claim C6 as stated fails for two points that differ only in depth: they are not equal, the
  function returns \<^verbatim>\<open>targetSize = 2\<close>, and 2 divided by the larger of width and height, which
  is zero, is \<^verbatim>\<open>Infinity\<close>.
\<close>

theorem face_scale_counterexample:
  "\<lparr>x = Fin 0.5, y = Fin 0.5, z = Fin 0\<rparr> \<noteq> \<lparr>x = Fin 0.5, y = Fin 0.5, z = Fin 1\<rparr> \<and>
   calculateOptimalFaceScale
     [\<lparr>x = Fin 0.5, y = Fin 0.5, z = Fin 0\<rparr>, \<lparr>x = Fin 0.5, y = Fin 0.5, z = Fin 1\<rparr>] (Fin 2) = Fin 2 \<and>
   js_div (Fin 2)
     (js_max
       (width (calculateFaceBoundingBox
          [\<lparr>x = Fin 0.5, y = Fin 0.5, z = Fin 0\<rparr>, \<lparr>x = Fin 0.5, y = Fin 0.5, z = Fin 1\<rparr>]))
       (height (calculateFaceBoundingBox
          [\<lparr>x = Fin 0.5, y = Fin 0.5, z = Fin 0\<rparr>, \<lparr>x = Fin 0.5, y = Fin 0.5, z = Fin 1\<rparr>])))
     = PInf"
  by (simp add: calculateOptimalFaceScale_def calculateFaceBoundingBox_def bounds_init_def
        bounds_step_def js_sub_def js_max_def js_min_def js_gt_def inf_signed_def)

text \<open>
  The three clauses at 468 equal points, at two points that differ in depth only, and at two
  points half a unit apart in \<^verbatim>\<open>x\<close>.
\<close>

theorem face_scale_by_extent_witness:
  "calculateOptimalFaceScale (replicate 468 \<lparr>x = Fin 0.25, y = Fin 0.75, z = Fin 0\<rparr>) (Fin 2) = Fin 2 \<and>
   calculateOptimalFaceScale
     [\<lparr>x = Fin 0.5, y = Fin 0.5, z = Fin 0\<rparr>, \<lparr>x = Fin 0.5, y = Fin 0.5, z = Fin 1\<rparr>] (Fin 2) = Fin 2 \<and>
   calculateOptimalFaceScale
     [\<lparr>x = Fin 0.25, y = Fin 0.5, z = Fin 0\<rparr>, \<lparr>x = Fin 0.75, y = Fin 0.25, z = Fin 0\<rparr>] (Fin 2) = Fin 4"
proof -
  let ?p = "\<lparr>x = Fin 0.25, y = Fin 0.75, z = Fin 0\<rparr>"
  let ?a = "\<lparr>x = Fin 0.5, y = Fin 0.5, z = Fin 0\<rparr>" and ?b = "\<lparr>x = Fin 0.5, y = Fin 0.5, z = Fin 1\<rparr>"
  let ?c = "\<lparr>x = Fin 0.25, y = Fin 0.5, z = Fin 0\<rparr>" and ?d = "\<lparr>x = Fin 0.75, y = Fin 0.25, z = Fin 0\<rparr>"
  note g = face_scale_by_extent
  from g have 1: "(\<forall>l \<in> set (replicate 468 ?p). l = ?p) \<longrightarrow>
      calculateOptimalFaceScale (replicate 468 ?p) (Fin 2) = Fin 2"
    by blast
  from g have 2: "(\<forall>l \<in> set [?a, ?b]. x l = Fin 0.5 \<and> y l = Fin 0.5) \<longrightarrow>
      calculateOptimalFaceScale [?a, ?b] (Fin 2) = Fin 2"
    by blast
  from g have 3: "(\<forall>l \<in> set [?c, ?d]. js_isFinite (x l) \<and> js_isFinite (y l)) \<and> ?c \<in> set [?c, ?d] \<and>
      ?d \<in> set [?c, ?d] \<and> (x ?c \<noteq> x ?d \<or> y ?c \<noteq> y ?d) \<longrightarrow>
      calculateOptimalFaceScale [?c, ?d] (Fin 2) =
        js_div (Fin 2) (js_max (width (calculateFaceBoundingBox [?c, ?d]))
                               (height (calculateFaceBoundingBox [?c, ?d])))"
    by blast
  have w: "js_div (Fin 2) (js_max (width (calculateFaceBoundingBox [?c, ?d]))
                               (height (calculateFaceBoundingBox [?c, ?d]))) = Fin 4"
    by (simp add: calculateFaceBoundingBox_def bounds_init_def
        bounds_step_def js_sub_def js_max_def js_min_def)
  from 1 have "calculateOptimalFaceScale (replicate 468 ?p) (Fin 2) = Fin 2" by simp
  moreover from 2 have "calculateOptimalFaceScale [?a, ?b] (Fin 2) = Fin 2" by simp
  moreover from 3 w have "calculateOptimalFaceScale [?c, ?d] (Fin 2) = Fin 4" by simp
  ultimately show ?thesis by blast
qed

section \<open>World-space round trip\<close>

subsection \<open>Accuracy of rounding\<close>

lemma binade_bounds:
  assumes "v \<noteq> 0"
  shows "2 powi binade v \<le> \<bar>v\<bar>" and "\<bar>v\<bar> < 2 powi (binade v + 1)"
proof -
  have pos: "0 < \<bar>v\<bar>" using assms by simp
  have "2 powi binade v \<le> \<bar>v\<bar> \<and> \<bar>v\<bar> < 2 powi (binade v + 1)"
  proof (cases "1 \<le> \<bar>v\<bar>")
    case True
    let ?n = "\<lfloor>\<bar>v\<bar>\<rfloor>"
    from True have n: "0 < ?n" by linarith
    from bitlen_bounds [OF n] have lo: "2 ^ nat (bitlen ?n - 1) \<le> ?n" and hi: "?n < 2 ^ nat (bitlen ?n)"
      by simp_all
    from n have b1: "1 \<le> bitlen ?n" by (simp add: bitlen_alt_def)
    have "(2::real) ^ nat (bitlen ?n - 1) \<le> of_int ?n"
      using lo by (metis of_int_le_iff of_int_numeral of_int_power)
    also have "\<dots> \<le> \<bar>v\<bar>" by simp
    finally have 1: "2 powi (bitlen ?n - 1) \<le> \<bar>v\<bar>"
      using b1 by (simp add: power_int_def)
    from hi have "?n + 1 \<le> 2 ^ nat (bitlen ?n)" by simp
    then have "of_int (?n + 1) \<le> (2::real) ^ nat (bitlen ?n)"
      by (metis of_int_le_iff of_int_numeral of_int_power)
    moreover have "\<bar>v\<bar> < of_int (?n + 1)" by linarith
    ultimately have "\<bar>v\<bar> < 2 ^ nat (bitlen ?n)" by linarith
    then have 2: "\<bar>v\<bar> < 2 powi (bitlen ?n - 1 + 1)"
      using b1 by (simp add: power_int_def)
    from True 1 2 show ?thesis by (simp add: binade_def)
  next
    case False
    let ?y = "1 / \<bar>v\<bar>"
    let ?c = "\<lceil>?y\<rceil>"
    from False pos have y1: "1 < ?y" by simp
    then have c: "0 < ?c - 1" by linarith
    let ?j = "bitlen (?c - 1)"
    from bitlen_bounds [OF c] have lo: "2 ^ nat (?j - 1) \<le> ?c - 1" and hi: "?c - 1 < 2 ^ nat ?j"
      by simp_all
    from c have j1: "1 \<le> ?j" by (simp add: bitlen_alt_def)
    from hi have "?c \<le> 2 ^ nat ?j" by simp
    then have "of_int ?c \<le> (2::real) ^ nat ?j"
      by (metis of_int_le_iff of_int_numeral of_int_power)
    moreover have "?y \<le> of_int ?c" by simp
    ultimately have yle: "?y \<le> 2 ^ nat ?j" by linarith
    have "(2::real) ^ nat (?j - 1) \<le> of_int (?c - 1)"
      using lo by (metis of_int_le_iff of_int_numeral of_int_power)
    moreover have "of_int (?c - 1) < ?y" by linarith
    ultimately have ygt: "2 ^ nat (?j - 1) < ?y" by linarith
    from yle pos have 1: "1 / 2 ^ nat ?j \<le> \<bar>v\<bar>"
      by (simp add: field_simps)
    from ygt pos have 2: "\<bar>v\<bar> < 1 / 2 ^ nat (?j - 1)"
      by (simp add: field_simps)
    have p1: "2 powi (- ?j) = (1::real) / 2 ^ nat ?j"
      using j1 by (simp add: power_int_def field_simps)
    have p2: "2 powi (1 - ?j) = (1::real) / 2 ^ nat (?j - 1)"
      using j1 by (simp add: power_int_def field_simps nat_diff_distrib)
    from False 1 2 show ?thesis by (simp add: binade_def p1 p2)
  qed
  then show "2 powi binade v \<le> \<bar>v\<bar>" and "\<bar>v\<bar> < 2 powi (binade v + 1)"
    by simp_all
qed

lemma round_half_even_error: "\<bar>of_int (round_half_even v) - v\<bar> \<le> 1 / 2"
  unfolding round_half_even_def Let_def by (auto; linarith)


lemma quantum_pos: "0 < quantum v"
  by (simp add: quantum_def)

lemma quantum_half:
  assumes "v \<noteq> 0"
  shows "quantum v / 2 \<le> \<bar>v\<bar> * unit_roundoff + tiny"
proof (cases "binade v - 52 \<le> - 1074")
  case True
  then have "max (- 1074) (binade v - 52) = - 1074"
    by linarith
  then have "quantum v = 2 powi (- 1074)"
    by (simp only: quantum_def)
  then have "quantum v / 2 = tiny"
    by (simp add: tiny_def power_int_minus field_simps)
  moreover have "0 \<le> \<bar>v\<bar> * unit_roundoff"
    by (simp add: unit_roundoff_def)
  ultimately show ?thesis by linarith
next
  case False
  then have "max (- 1074) (binade v - 52) = binade v + (- 52)"
    by linarith
  then have "quantum v = 2 powi (binade v + (- 52))"
    by (simp only: quantum_def)
  also have "\<dots> = 2 powi binade v * 2 powi (- 52)"
    by (rule power_int_add) simp
  also have "\<dots> = 2 powi binade v / 2 ^ 52"
    by (simp add: power_int_minus field_simps)
  finally have "quantum v / 2 = 2 powi binade v / 2 ^ 53"
    by simp
  also have "\<dots> \<le> \<bar>v\<bar> / 2 ^ 53"
    using binade_bounds(1) [OF assms] by (simp add: divide_right_mono)
  finally have "quantum v / 2 \<le> \<bar>v\<bar> * unit_roundoff"
    by (simp add: unit_roundoff_def)
  moreover have "0 \<le> tiny" by (simp add: tiny_def)
  ultimately show ?thesis by linarith
qed

lemma round64_error:
  assumes "\<bar>v\<bar> \<le> max_double"
  shows "\<exists>r. round64 v = Fin r \<and> \<bar>r - v\<bar> \<le> \<bar>v\<bar> * unit_roundoff + tiny"
proof (cases "v = 0")
  case True
  then show ?thesis by (simp add: round64_def tiny_def)
next
  case False
  let ?q = "quantum v"
  let ?k = "round_half_even (v / ?q)"
  let ?r = "of_int ?k * ?q"
  have q: "0 < ?q" by (rule quantum_pos)
  have "\<bar>?r - v\<bar> = \<bar>of_int ?k - v / ?q\<bar> * ?q"
  proof -
    have "?r - v = (of_int ?k - v / ?q) * ?q"
      using q by (simp add: field_simps)
    then show ?thesis
      using q by (simp add: abs_mult)
  qed
  also have "\<dots> \<le> 1 / 2 * ?q"
    using round_half_even_error [of "v / ?q"] q by (intro mult_right_mono) simp_all
  finally have near: "\<bar>?r - v\<bar> \<le> ?q / 2" by simp
  with quantum_half [OF False] have err: "\<bar>?r - v\<bar> \<le> \<bar>v\<bar> * unit_roundoff + tiny"
    by linarith
  have "\<bar>v\<bar> * unit_roundoff \<le> max_double * unit_roundoff"
    using assms by (intro mult_right_mono) (simp_all add: unit_roundoff_def)
  with err assms have "\<bar>?r\<bar> \<le> max_double + max_double * unit_roundoff + tiny"
    by linarith
  also have "\<dots> < 2 ^ 1024"
    by (simp add: max_double_def unit_roundoff_def tiny_def)
  finally have "\<not> 2 ^ 1024 \<le> \<bar>?r\<bar>" by simp
  then have "round64 v = Fin ?r"
    using False by (simp add: round64_def Let_def)
  with err show ?thesis by blast
qed


subsection \<open>Error of the round trip\<close>

lemma double_constants:
  "0 < unit_roundoff" "unit_roundoff \<le> 1 / 100000000000" "0 < tiny" "tiny = unit_roundoff * min_normal"
  "0 < min_normal" "min_normal \<le> 1" "2 \<le> max_double"
  by (simp_all add: unit_roundoff_def tiny_def min_normal_def max_double_def)

lemma round64_step:
  assumes "\<bar>v\<bar> \<le> B" and "B \<le> max_double"
  obtains r where "round64 v = Fin r" and "\<bar>r - v\<bar> \<le> B * unit_roundoff + tiny"
proof -
  from assms have "\<bar>v\<bar> \<le> max_double" by linarith
  from round64_error [OF this] obtain r where r: "round64 v = Fin r"
    "\<bar>r - v\<bar> \<le> \<bar>v\<bar> * unit_roundoff + tiny"
    by blast
  have "\<bar>v\<bar> * unit_roundoff \<le> B * unit_roundoff"
    using assms(1) double_constants(1) by (intro mult_right_mono) simp_all
  with r that show thesis by force
qed

text \<open>At a normal scale the underflow threshold is below the relative error.\<close>

lemma tiny_le:
  assumes "min_normal \<le> s"
  shows "tiny \<le> unit_roundoff * s" and "tiny \<le> unit_roundoff"
proof -
  show "tiny \<le> unit_roundoff * s"
    unfolding double_constants(4) using assms double_constants(1) by (intro mult_left_mono) simp_all
  have "unit_roundoff * min_normal \<le> unit_roundoff * 1"
    using double_constants(1,6) by (intro mult_left_mono) simp_all
  then show "tiny \<le> unit_roundoff" by (simp add: double_constants(4))
qed

lemma scale_unscale:
  assumes s: "min_normal \<le> s" "s \<le> max_double" and a: "\<bar>a\<bar> \<le> 1"
  obtains b c where "round64 (a * s) = Fin b" and "round64 (b / s) = Fin c"
    and "\<bar>c - a\<bar> \<le> 5 * unit_roundoff"
proof -
  note k = double_constants
  from s k have spos: "0 < s" by linarith
  note t = tiny_le [OF s(1)]
  have "\<bar>a * s\<bar> \<le> s"
    using a spos by (simp add: abs_mult mult_left_le_one_le)
  from round64_step [OF this s(2)] obtain b where b: "round64 (a * s) = Fin b"
    "\<bar>b - a * s\<bar> \<le> s * unit_roundoff + tiny"
    by blast
  with t(1) have "\<bar>b - a * s\<bar> \<le> 2 * (unit_roundoff * s)"
    unfolding mult.commute [of s unit_roundoff] by linarith
  then have "\<bar>b - a * s\<bar> / s \<le> 2 * unit_roundoff"
    using spos by (simp add: field_simps)
  moreover have "\<bar>b / s - a\<bar> = \<bar>b - a * s\<bar> / s"
  proof -
    have "b / s - a = (b - a * s) / s" using spos by (simp add: field_simps)
    then show ?thesis using spos by (simp add: abs_divide del: divide_diff_eq_iff)
  qed
  ultimately have q: "\<bar>b / s - a\<bar> \<le> 2 * unit_roundoff" by simp
  with a k(1,2) have "\<bar>b / s\<bar> \<le> 2" by linarith
  from round64_step [OF this k(7)] obtain c where c: "round64 (b / s) = Fin c"
    "\<bar>c - b / s\<bar> \<le> 2 * unit_roundoff + tiny"
    by blast
  from c(2) q t(2) have "\<bar>c - a\<bar> \<le> 5 * unit_roundoff" by linarith
  with b(1) c(1) that show thesis by blast
qed


lemma fl_Fin [simp]:
  "fl_add (Fin a) (Fin b) = round64 (a + b)"
  "fl_sub (Fin a) (Fin b) = round64 (a - b)"
  "fl_mul (Fin a) (Fin b) = round64 (a * b)"
  "b \<noteq> 0 \<Longrightarrow> fl_div (Fin a) (Fin b) = round64 (a / b)"
  by (simp_all add: fl_add_def fl_sub_def fl_mul_def fl_div_def fl_def js_sub_def)

lemma centre_step:
  assumes "0 \<le> a" and "a \<le> 1"
  obtains a' where "round64 (a - 1 / 2) = Fin a'" and "\<bar>a' - (a - 1 / 2)\<bar> \<le> 2 * unit_roundoff"
    and "\<bar>a'\<bar> \<le> 1"
proof -
  note k = double_constants
  have t: "tiny \<le> unit_roundoff"
    using tiny_le(2) [of min_normal] by simp
  from assms have half: "\<bar>a - 1 / 2\<bar> \<le> 1 / 2" by linarith
  then have "\<bar>a - 1 / 2\<bar> \<le> 1" by linarith
  moreover from k(7) have "1 \<le> max_double" by linarith
  ultimately obtain a' where a': "round64 (a - 1 / 2) = Fin a'"
    "\<bar>a' - (a - 1 / 2)\<bar> \<le> 1 * unit_roundoff + tiny"
    by (rule round64_step)
  from a'(2) t have 1: "\<bar>a' - (a - 1 / 2)\<bar> \<le> 2 * unit_roundoff" by linarith
  with half k(1,2) have 2: "\<bar>a'\<bar> \<le> 1" by linarith
  from a'(1) 1 2 that show thesis by blast
qed

lemma recentre_step:
  assumes "\<bar>c\<bar> \<le> 1"
  obtains d where "round64 (c + 1 / 2) = Fin d" and "\<bar>d - (c + 1 / 2)\<bar> \<le> 3 * unit_roundoff"
proof -
  note k = double_constants
  have t: "tiny \<le> unit_roundoff"
    using tiny_le(2) [of min_normal] by simp
  from assms have "\<bar>c + 1 / 2\<bar> \<le> 2" by linarith
  from round64_step [OF this k(7)] obtain d where d: "round64 (c + 1 / 2) = Fin d"
    "\<bar>d - (c + 1 / 2)\<bar> \<le> 2 * unit_roundoff + tiny"
    by blast
  from d(2) t have "\<bar>d - (c + 1 / 2)\<bar> \<le> 3 * unit_roundoff" by linarith
  with d(1) that show thesis by blast
qed

lemma x_round_trip:
  assumes s: "min_normal \<le> s" "s \<le> max_double" and a: "0 \<le> a" "a \<le> 1"
  shows "\<exists>d. fl_add (fl_div (fl_mul (fl_sub (Fin a) (Fin 0.5)) (Fin s)) (Fin s)) (Fin 0.5) = Fin d \<and>
             \<bar>d - a\<bar> \<le> 10 * unit_roundoff"
proof -
  note k = double_constants
  from s k have s0: "s \<noteq> 0" by linarith
  from centre_step [OF a] obtain a' where a': "round64 (a - 1 / 2) = Fin a'"
    "\<bar>a' - (a - 1 / 2)\<bar> \<le> 2 * unit_roundoff" "\<bar>a'\<bar> \<le> 1"
    by blast
  from scale_unscale [OF s a'(3)] obtain b c where bc: "round64 (a' * s) = Fin b"
    "round64 (b / s) = Fin c" "\<bar>c - a'\<bar> \<le> 5 * unit_roundoff"
    by blast
  from bc(3) a'(2) a k(1,2) have "\<bar>c\<bar> \<le> 1" by linarith
  from recentre_step [OF this] obtain d where d: "round64 (c + 1 / 2) = Fin d"
    "\<bar>d - (c + 1 / 2)\<bar> \<le> 3 * unit_roundoff"
    by blast
  from d(2) bc(3) a'(2) have "\<bar>d - a\<bar> \<le> 10 * unit_roundoff" by linarith
  moreover have "fl_add (fl_div (fl_mul (fl_sub (Fin a) (Fin 0.5)) (Fin s)) (Fin s)) (Fin 0.5) = Fin d"
    using s0 by (simp add: a'(1) bc d(1))
  ultimately show ?thesis by blast
qed

lemma y_round_trip:
  assumes s: "min_normal \<le> s" "s \<le> max_double" and a: "0 \<le> a" "a \<le> 1"
  shows "\<exists>d. fl_add (js_neg (fl_div (fl_mul (js_neg (fl_sub (Fin a) (Fin 0.5))) (Fin s)) (Fin s)))
                 (Fin 0.5) = Fin d \<and>
             \<bar>d - a\<bar> \<le> 10 * unit_roundoff"
proof -
  note k = double_constants
  from s k have s0: "s \<noteq> 0" by linarith
  from centre_step [OF a] obtain a' where a': "round64 (a - 1 / 2) = Fin a'"
    "\<bar>a' - (a - 1 / 2)\<bar> \<le> 2 * unit_roundoff" "\<bar>a'\<bar> \<le> 1"
    by blast
  from a'(3) have "\<bar>- a'\<bar> \<le> 1" by simp
  from scale_unscale [OF s this] obtain b c where bc: "round64 (- a' * s) = Fin b"
    "round64 (b / s) = Fin c" "\<bar>c - (- a')\<bar> \<le> 5 * unit_roundoff"
    by blast
  from bc(3) a'(2) a k(1,2) have "\<bar>- c\<bar> \<le> 1" by linarith
  from recentre_step [OF this] obtain d where d: "round64 (- c + 1 / 2) = Fin d"
    "\<bar>d - (- c + 1 / 2)\<bar> \<le> 3 * unit_roundoff"
    by blast
  from d(2) bc(3) a'(2) have "\<bar>d - a\<bar> \<le> 10 * unit_roundoff" by linarith
  moreover have "fl_add (js_neg (fl_div (fl_mul (js_neg (fl_sub (Fin a) (Fin 0.5))) (Fin s)) (Fin s)))
                 (Fin 0.5) = Fin d"
    using s0 bc(1) d(1) by (simp add: a'(1) bc(2))
  ultimately show ?thesis by blast
qed


lemma z_round_trip:
  assumes s: "min_normal \<le> s" "s \<le> max_double" and c: "\<bar>c\<bar> \<le> 1"
  shows "\<exists>d. fl_div (fl_mul (fl_mul (Fin c) (Fin s)) (Fin 0.5)) (fl_mul (Fin s) (Fin 0.5)) = Fin d \<and>
             \<bar>d - c\<bar> \<le> 23 * unit_roundoff"
proof -
  note k = double_constants
  let ?us = "unit_roundoff * s"
  from s k have spos: "0 < s" by linarith
  note t = tiny_le [OF s(1)]
  have us: "0 \<le> ?us" "?us \<le> s / 100000000000"
  proof -
    show "0 \<le> ?us" using k(1) spos by simp
    have "?us \<le> 1 / 100000000000 * s"
      using k(2) spos by (intro mult_right_mono) simp_all
    then show "?us \<le> s / 100000000000" by simp
  qed
  have step: "\<exists>r. round64 v = Fin r \<and> \<bar>r - v\<bar> \<le> 2 * ?us" if "\<bar>v\<bar> \<le> s" for v
  proof -
    from round64_step [OF that s(2)] obtain r where "round64 v = Fin r"
      "\<bar>r - v\<bar> \<le> s * unit_roundoff + tiny"
      by blast
    with t(1) show ?thesis
      unfolding mult.commute [of s unit_roundoff] by force
  qed
  have "\<bar>c * s\<bar> \<le> s"
    using c spos by (simp add: abs_mult mult_left_le_one_le)
  from step [OF this] obtain m where m: "round64 (c * s) = Fin m" "\<bar>m - c * s\<bar> \<le> 2 * ?us"
    by blast
  from m(2) \<open>\<bar>c * s\<bar> \<le> s\<close> us have "\<bar>m / 2\<bar> \<le> s" by linarith
  from step [OF this] obtain n where n: "round64 (m / 2) = Fin n" "\<bar>n - m / 2\<bar> \<le> 2 * ?us"
    by blast
  from spos have "\<bar>s / 2\<bar> \<le> s" by simp
  from step [OF this] obtain h where h: "round64 (s / 2) = Fin h" "\<bar>h - s / 2\<bar> \<le> 2 * ?us"
    by blast
  from h(2) us have hlow: "s / 4 \<le> h" by linarith
  with spos have hpos: "0 < h" by linarith
  have "\<bar>c * (s / 2 - h)\<bar> \<le> \<bar>s / 2 - h\<bar>"
    using c by (simp add: abs_mult mult_left_le_one_le)
  with h(2) have third: "\<bar>c * (s / 2) - c * h\<bar> \<le> 2 * ?us"
    by (simp add: right_diff_distrib abs_minus_commute)
  from m(2) have second: "\<bar>m / 2 - c * (s / 2)\<bar> \<le> ?us" by simp
  from n(2) second third have "\<bar>n - c * h\<bar> \<le> 5 * ?us" by linarith
  also have "5 * ?us \<le> 20 * (unit_roundoff * h)"
  proof -
    have "unit_roundoff * s \<le> unit_roundoff * (4 * h)"
      using hlow k(1) by (intro mult_left_mono) simp_all
    then show ?thesis by simp
  qed
  finally have "\<bar>n - c * h\<bar> / h \<le> 20 * unit_roundoff"
    using hpos by (simp add: field_simps)
  moreover have "\<bar>n / h - c\<bar> = \<bar>n - c * h\<bar> / h"
  proof -
    have "n / h - c = (n - c * h) / h" using hpos by (simp add: field_simps)
    then show ?thesis using hpos by (simp add: abs_divide del: divide_diff_eq_iff)
  qed
  ultimately have q: "\<bar>n / h - c\<bar> \<le> 20 * unit_roundoff" by simp
  with c k(1,2) have "\<bar>n / h\<bar> \<le> 2" by linarith
  from round64_step [OF this k(7)] obtain d where d: "round64 (n / h) = Fin d"
    "\<bar>d - n / h\<bar> \<le> 2 * unit_roundoff + tiny"
    by blast
  from d(2) q t(2) have "\<bar>d - c\<bar> \<le> 23 * unit_roundoff" by linarith
  moreover have "fl_div (fl_mul (fl_mul (Fin c) (Fin s)) (Fin 0.5)) (fl_mul (Fin s) (Fin 0.5)) = Fin d"
    using hpos by (simp add: m(1) n(1) h(1) d(1))
  ultimately show ?thesis by blast
qed


text \<open>
  Claim C1, as amended. For every normalized point with \<^verbatim>\<open>x\<close> and \<^verbatim>\<open>y\<close> in \<open>[0, 1]\<close> and \<^verbatim>\<open>z\<close>
  in \<open>[-1, 1]\<close> and every finite scale \<open>s\<close> that is at least the smallest normal double
  \<open>2 ^ - 1022\<close>, converting to world space and back in double arithmetic gives finite components
  within \<open>1e-9\<close> of the original ones.
\<close>

theorem world_round_trip:
  assumes "well_formed p" and "min_normal \<le> s" and "s \<le> max_double"
  shows "within_tolerance (x (worldToNormalized (normalizedToWorld p (Fin s)) (Fin s))) (x p) \<and>
         within_tolerance (y (worldToNormalized (normalizedToWorld p (Fin s)) (Fin s))) (y p) \<and>
         within_tolerance (z (worldToNormalized (normalizedToWorld p (Fin s)) (Fin s))) (z p)"
proof -
  from assms(1) obtain a b c where p: "x p = Fin a" "y p = Fin b" "z p = Fin c"
    and r: "0 \<le> a" "a \<le> 1" "0 \<le> b" "b \<le> 1" "- 1 \<le> c" "c \<le> 1"
    by (cases "x p"; cases "y p"; cases "z p") (simp_all add: well_formed_def in_range_def)
  from r have c: "\<bar>c\<bar> \<le> 1" by linarith
  have small: "23 * unit_roundoff \<le> 1 / 10 ^ 9" "10 * unit_roundoff \<le> 1 / 10 ^ 9"
    by (simp_all add: unit_roundoff_def)
  from x_round_trip [OF assms(2,3) r(1,2)] obtain dx where
    dx: "fl_add (fl_div (fl_mul (fl_sub (Fin a) (Fin 0.5)) (Fin s)) (Fin s)) (Fin 0.5) = Fin dx"
      "\<bar>dx - a\<bar> \<le> 10 * unit_roundoff"
    by blast
  from y_round_trip [OF assms(2,3) r(3,4)] obtain dy where
    dy: "fl_add (js_neg (fl_div (fl_mul (js_neg (fl_sub (Fin b) (Fin 0.5))) (Fin s)) (Fin s)))
           (Fin 0.5) = Fin dy"
      "\<bar>dy - b\<bar> \<le> 10 * unit_roundoff"
    by blast
  from z_round_trip [OF assms(2,3) c] obtain dz where
    dz: "fl_div (fl_mul (fl_mul (Fin c) (Fin s)) (Fin 0.5)) (fl_mul (Fin s) (Fin 0.5)) = Fin dz"
      "\<bar>dz - c\<bar> \<le> 23 * unit_roundoff"
    by blast
  have "x (worldToNormalized (normalizedToWorld p (Fin s)) (Fin s)) = Fin dx"
    "y (worldToNormalized (normalizedToWorld p (Fin s)) (Fin s)) = Fin dy"
    "z (worldToNormalized (normalizedToWorld p (Fin s)) (Fin s)) = Fin dz"
    unfolding worldToNormalized_def normalizedToWorld_def p by (simp_all only: landmark.simps dx(1) dy(1) dz(1))
  moreover have "\<bar>dx - a\<bar> \<le> 1 / 10 ^ 9" "\<bar>dy - b\<bar> \<le> 1 / 10 ^ 9" "\<bar>dz - c\<bar> \<le> 1 / 10 ^ 9"
    using dx(2) dy(2) dz(2) small by linarith+
  ultimately show ?thesis
    by (simp add: p within_tolerance_def js_sub_def)
qed


text \<open>The round trip of \<open>(0.75, 0.25, -0.5)\<close> at scale 3.\<close>

theorem world_round_trip_witness:
  "well_formed \<lparr>x = Fin 0.75, y = Fin 0.25, z = Fin (- 0.5)\<rparr> \<and> min_normal \<le> 3 \<and> 3 \<le> max_double \<and>
   within_tolerance
     (x (worldToNormalized (normalizedToWorld \<lparr>x = Fin 0.75, y = Fin 0.25, z = Fin (- 0.5)\<rparr> (Fin 3)) (Fin 3)))
     (Fin 0.75) \<and>
   within_tolerance
     (y (worldToNormalized (normalizedToWorld \<lparr>x = Fin 0.75, y = Fin 0.25, z = Fin (- 0.5)\<rparr> (Fin 3)) (Fin 3)))
     (Fin 0.25) \<and>
   within_tolerance
     (z (worldToNormalized (normalizedToWorld \<lparr>x = Fin 0.75, y = Fin 0.25, z = Fin (- 0.5)\<rparr> (Fin 3)) (Fin 3)))
     (Fin (- 0.5))"
proof -
  have wf: "well_formed \<lparr>x = Fin 0.75, y = Fin 0.25, z = Fin (- 0.5)\<rparr>"
    by (simp add: well_formed_def in_range_def)
  have lo: "min_normal \<le> 3" by (simp add: min_normal_def)
  have hi: "3 \<le> max_double" by (simp add: max_double_def)
  from world_round_trip [OF wf lo hi] wf lo hi show ?thesis by simp
qed

subsection \<open>Rounding at the smallest doubles\<close>

lemma binade_eq:
  assumes lo: "2 powi e \<le> \<bar>v\<bar>" and hi: "\<bar>v\<bar> < 2 powi (e + 1)"
  shows "binade v = e"
proof -
  have "0 < (2::real) powi e" by simp
  with lo have "0 < \<bar>v\<bar>" by linarith
  then have v: "v \<noteq> 0" by simp
  note b = binade_bounds [OF v]
  have "\<not> e + 1 \<le> binade v"
  proof
    assume "e + 1 \<le> binade v"
    then have "(2::real) powi (e + 1) \<le> 2 powi binade v"
      by (intro power_int_increasing) simp_all
    with b(1) hi show False by linarith
  qed
  moreover have "\<not> binade v + 1 \<le> e"
  proof
    assume "binade v + 1 \<le> e"
    then have "(2::real) powi (binade v + 1) \<le> 2 powi e"
      by (intro power_int_increasing) simp_all
    with b(2) lo show False by linarith
  qed
  ultimately show ?thesis by linarith
qed

lemma round64_values:
  "round64 0 = Fin 0"
  "round64 (1 / 2) = Fin (1 / 2)"
  "round64 (- (1 / 2)) = Fin (- (1 / 2))"
  "round64 (1 / 2 ^ 1074) = Fin (1 / 2 ^ 1074)"
  "round64 (1 / 2 ^ 1075) = Fin 0"
  "round64 (- (1 / 2 ^ 1075)) = Fin 0"
proof -
  show "round64 0 = Fin 0" by (simp add: round64_def)
  have b1: "binade (1 / 2) = - 1" "binade (- (1 / 2)) = - 1"
    by (rule binade_eq; simp add: power_int_minus)+
  have q1: "quantum (1 / 2) = 1 / 2 ^ 53" "quantum (- (1 / 2)) = 1 / 2 ^ 53"
    unfolding quantum_def b1 by (simp_all add: power_int_minus)
  show "round64 (1 / 2) = Fin (1 / 2)"
    unfolding round64_def q1 by (simp add: round_half_even_def)
  show "round64 (- (1 / 2)) = Fin (- (1 / 2))"
    unfolding round64_def q1 by (simp add: round_half_even_def)
  have b2: "binade (1 / 2 ^ 1074) = - 1074"
    by (rule binade_eq) (simp_all add: power_int_minus field_simps)
  have q2: "quantum (1 / 2 ^ 1074) = 1 / 2 ^ 1074"
    unfolding quantum_def b2 by (simp add: power_int_minus)
  show "round64 (1 / 2 ^ 1074) = Fin (1 / 2 ^ 1074)"
    unfolding round64_def q2 by (simp add: round_half_even_def)
  have b3: "binade (1 / 2 ^ 1075) = - 1075" "binade (- (1 / 2 ^ 1075)) = - 1075"
    by (rule binade_eq; simp add: power_int_minus field_simps)+
  have q3: "quantum (1 / 2 ^ 1075) = 1 / 2 ^ 1074" "quantum (- (1 / 2 ^ 1075)) = 1 / 2 ^ 1074"
    unfolding quantum_def b3 by (simp_all add: power_int_minus)
  have h: "(1::real) / 2 ^ 1075 / (1 / 2 ^ 1074) = 1 / 2" "- ((1::real) / 2 ^ 1075) / (1 / 2 ^ 1074) = - (1 / 2)"
    by simp_all
  have f: "\<lfloor>(1::real) / 2\<rfloor> = 0" "\<lfloor>- ((1::real) / 2)\<rfloor> = - 1"
    by (simp_all add: floor_eq_iff)
  show "round64 (1 / 2 ^ 1075) = Fin 0"
    unfolding round64_def q3 h Let_def round_half_even_def f by simp
  show "round64 (- (1 / 2 ^ 1075)) = Fin 0"
    unfolding round64_def q3 h Let_def round_half_even_def f by simp
qed


text \<open>
  Claim C1 as stated, for every scale \<open>s > 0\<close>, fails at the smallest positive double
  \<open>s = 2 ^ - 1074\<close> and at \<^verbatim>\<open>s = Infinity\<close>. At the first, the point \<open>(0, 1, 1)\<close> comes back as
  \<open>(0.5, 0.5, NaN)\<close>: the products of \<open>s\<close> with 0.5 and with -0.5 lie halfway between zero and
  the nearest other double and round to zero. At the second it comes back as NaN in every
  component.
\<close>

theorem world_round_trip_counterexample:
  "js_gt (Fin (1 / 2 ^ 1074)) (Fin 0) \<and>
   well_formed \<lparr>x = Fin 0, y = Fin 1, z = Fin 1\<rparr> \<and>
   worldToNormalized (normalizedToWorld \<lparr>x = Fin 0, y = Fin 1, z = Fin 1\<rparr> (Fin (1 / 2 ^ 1074))) (Fin (1 / 2 ^ 1074))
     = \<lparr>x = Fin 0.5, y = Fin 0.5, z = NaN\<rparr> \<and>
   \<not> within_tolerance (Fin 0.5) (Fin 0) \<and> \<not> within_tolerance (Fin 0.5) (Fin 1) \<and>
   \<not> within_tolerance NaN (Fin 1) \<and>
   js_gt PInf (Fin 0) \<and>
   worldToNormalized (normalizedToWorld \<lparr>x = Fin 0, y = Fin 1, z = Fin 1\<rparr> PInf) PInf = \<lparr>x = NaN, y = NaN, z = NaN\<rparr>"
proof -
  define s :: real where "s = 1 / 2 ^ 1074"
  have s0: "s \<noteq> 0" "0 < s" by (simp_all add: s_def)
  have half: "s / 2 = 1 / 2 ^ 1075" "- (s / 2) = - (1 / 2 ^ 1075)"
    by (simp_all add: s_def)
  have r: "round64 s = Fin s" "round64 (s / 2) = Fin 0" "round64 (- (s / 2)) = Fin 0"
    unfolding half by (simp_all only: s_def round64_values)
  have d: "fl_div (Fin 0) (Fin 0) = NaN"
    by (simp add: fl_div_def fl_def inf_signed_def)
  have small: "worldToNormalized (normalizedToWorld \<lparr>x = Fin 0, y = Fin 1, z = Fin 1\<rparr> (Fin s)) (Fin s)
     = \<lparr>x = Fin 0.5, y = Fin 0.5, z = NaN\<rparr>"
    using s0 by (simp add: worldToNormalized_def normalizedToWorld_def round64_values(1-3) r d)
  have inf: "worldToNormalized (normalizedToWorld \<lparr>x = Fin 0, y = Fin 1, z = Fin 1\<rparr> PInf) PInf = \<lparr>x = NaN, y = NaN, z = NaN\<rparr>"
    by (simp add: worldToNormalized_def normalizedToWorld_def round64_values(1-3) fl_mul_def fl_div_def fl_add_def fl_def
          inf_signed_def)
  have rest: "js_gt (Fin s) (Fin 0)" "well_formed \<lparr>x = Fin 0, y = Fin 1, z = Fin 1\<rparr>"
    "\<not> within_tolerance (Fin 0.5) (Fin 0)" "\<not> within_tolerance (Fin 0.5) (Fin 1)"
    "\<not> within_tolerance NaN (Fin 1)" "js_gt PInf (Fin 0)"
    using s0 by (simp_all add: js_gt_def well_formed_def in_range_def within_tolerance_def js_sub_def)
  from small inf rest show ?thesis
    unfolding s_def by blast
qed

section \<open>Cutouts of the mask boundary\<close>

lemma px_in_range: "i < length lm \<Longrightarrow> px lm i W = Inr (fst (pixel_of lm W H i))"
  by (simp add: px_def landmark_at_def pixel_of_def)

lemma py_in_range: "i < length lm \<Longrightarrow> py lm i H = Inr (snd (pixel_of lm W H i))"
  by (simp add: py_def landmark_at_def pixel_of_def)

lemma ebind_Inr [simp]: "ebind (Inr v) f = f v"
  by (simp add: ebind_def)

lemma ebind_Inl [simp]: "ebind (Inl e) f = Inl e"
  by (simp add: ebind_def)

lemma hole_lines_in_range:
  "\<forall>i \<in> set rest. i < length lm \<Longrightarrow>
   hole_lines p rest lm W H =
     Inr (p @ map (\<lambda>v. LineTo (fst v) (snd v)) (map (pixel_of lm W H) rest))"
proof (induction rest arbitrary: p)
  case Nil
  then show ?case by simp
next
  case (Cons i rest)
  then have i: "i < length lm" and r: "\<forall>j \<in> set rest. j < length lm" by simp_all
  show ?case
    by (simp add: px_in_range [OF i, of W H] py_in_range [OF i, of H W] Cons.IH [OF r] lineTo_def)
qed

lemma addHoleCCW_in_range:
  assumes ne: "indices \<noteq> []" and inr: "\<forall>i \<in> set indices. i < length lm"
  shows "addHoleCCW path indices lm W H =
           Inr (path @ polygon_subpath (map (pixel_of lm W H) (rev indices)))"
proof -
  from ne obtain i0 rest where r: "rev indices = i0 # rest"
    by (cases "rev indices") auto
  then have "set (i0 # rest) = set indices"
    by (metis set_rev)
  with inr have i0: "i0 < length lm" and rest: "\<forall>j \<in> set rest. j < length lm"
    by auto
  show ?thesis
    by (simp add: addHoleCCW_def r px_in_range [OF i0, of W H] py_in_range [OF i0, of H W]
          hole_lines_in_range [OF rest] moveTo_def closePath_def polygon_subpath_def)
qed

lemma eye_indices: "\<forall>i \<in> set LEFT_EYE. i < 468" "\<forall>i \<in> set RIGHT_EYE. i < 468"
  "LEFT_EYE \<noteq> []" "RIGHT_EYE \<noteq> []"
  by (simp_all add: LEFT_EYE_def RIGHT_EYE_def)

lemma arcTo_cases: "arcTo p a b c d r = Inl IndexSizeError \<or> arcTo p a b c d r = Inr (p @ [ArcTo a b c d r])"
  by (simp add: arcTo_def)

lemma ellipse_cases:
  "ellipse p a b c d e f g h = Inl IndexSizeError \<or>
   ellipse p a b c d e f g h = Inr (p @ [Ellipse a b c d e f g h])"
  by (simp add: ellipse_def)


lemma named_in_range:
  assumes "468 \<le> length lm"
  shows "TOP_HEAD < length lm" "CHIN < length lm" "LEFT_EAR < length lm" "RIGHT_EAR < length lm"
    "MOUTH_PTS ! 0 < length lm" "MOUTH_PTS ! 1 < length lm" "MOUTH_PTS ! 2 < length lm"
    "MOUTH_PTS ! 3 < length lm"
    "\<forall>i \<in> set LEFT_EYE. i < length lm" "\<forall>i \<in> set RIGHT_EYE. i < length lm"
  using assms eye_indices(1,2)
  by (auto simp: TOP_HEAD_def CHIN_def LEFT_EAR_def RIGHT_EAR_def MOUTH_PTS_def)

lemma ebind_Inr_iff: "ebind m f = Inr p \<longleftrightarrow> (\<exists>v. m = Inr v \<and> f v = Inr p)"
  by (cases m) simp_all

lemma ebind_TypeError_iff:
  "ebind m f = Inl TypeError \<longleftrightarrow> m = Inl TypeError \<or> (\<exists>v. m = Inr v \<and> f v = Inl TypeError)"
  by (cases m) simp_all

lemma arcTo_Inr: "arcTo p a b c d r = Inr q \<Longrightarrow> q = p @ [ArcTo a b c d r]"
  by (simp add: arcTo_def split: if_splits)

lemma arcTo_not_TypeError: "arcTo p a b c d r \<noteq> Inl TypeError"
  by (simp add: arcTo_def)

lemma ellipse_Inr: "ellipse p a b c d e f g h = Inr q \<Longrightarrow> q = p @ [Ellipse a b c d e f g h]"
  by (simp add: ellipse_def split: if_splits)

lemma ellipse_not_TypeError: "ellipse p a b c d e f g h \<noteq> Inl TypeError"
  by (simp add: ellipse_def)

lemma buildMaskPath_shape:
  assumes len: "468 \<le> length lm" and ok: "buildMaskPath lm W H = Inr p"
  shows "\<exists>outer mouth. p = outer @ polygon_subpath (map (pixel_of lm W H) (rev LEFT_EYE))
            @ polygon_subpath (map (pixel_of lm W H) (rev RIGHT_EYE)) @ [mouth]"
proof -
  note r = named_in_range [OF len]
  note holes = addHoleCCW_in_range [OF eye_indices(3) r(9)] addHoleCCW_in_range [OF eye_indices(4) r(10)]
  note coords = px_in_range [OF r(3), of W H] px_in_range [OF r(4), of W H]
    py_in_range [OF r(1), of H W] py_in_range [OF r(2), of H W]
    px_in_range [OF r(5), of W H] px_in_range [OF r(7), of W H]
    py_in_range [OF r(6), of H W] py_in_range [OF r(8), of H W]
  from ok obtain p9 e where "ellipse (closePath p9 @ polygon_subpath (map (pixel_of lm W H) (rev LEFT_EYE))
            @ polygon_subpath (map (pixel_of lm W H) (rev RIGHT_EYE)))
       (fst e) (fst (snd e)) (fst (snd (snd e))) (snd (snd (snd e))) (Fin 0) (Fin 0) (js_mul MATH_PI (Fin 2)) True = Inr p"
    unfolding buildMaskPath_def coords holes ebind_Inr Let_def ebind_Inr_iff
    by (metis append.assoc fst_conv snd_conv)
  from ellipse_Inr [OF this] show ?thesis
    by (metis append.assoc)
qed


lemma buildMaskPath_no_TypeError:
  assumes len: "468 \<le> length lm"
  shows "buildMaskPath lm W H \<noteq> Inl TypeError"
proof -
  note r = named_in_range [OF len]
  note holes = addHoleCCW_in_range [OF eye_indices(3) r(9)] addHoleCCW_in_range [OF eye_indices(4) r(10)]
  note coords = px_in_range [OF r(3), of W H] px_in_range [OF r(4), of W H]
    py_in_range [OF r(1), of H W] py_in_range [OF r(2), of H W]
    px_in_range [OF r(5), of W H] px_in_range [OF r(7), of W H]
    py_in_range [OF r(6), of H W] py_in_range [OF r(8), of H W]
  show ?thesis
    unfolding buildMaskPath_def coords holes ebind_Inr Let_def ebind_TypeError_iff
    by (simp add: arcTo_not_TypeError ellipse_not_TypeError)
qed

lemma eye_point_in_range: "idx < length lm \<Longrightarrow> eye_point lm W H idx = pixel_of lm W H idx"
  by (simp add: eye_point_def landmark_at_def pixel_of_def)

lemma generateMaskBuffer_polygons:
  assumes len: "468 \<le> length lm"
  shows "\<exists>mouth. elements (generateMaskBuffer lm W H) =
     [SvgRect, SvgPolygon (map (pixel_of lm W H) LEFT_EYE),
      SvgPolygon (map (pixel_of lm W H) RIGHT_EYE), mouth]"
proof -
  note r = named_in_range [OF len]
  have "map (eye_point lm W H) LEFT_EYE = map (pixel_of lm W H) LEFT_EYE"
    using r(9) by (simp add: eye_point_in_range)
  moreover have "map (eye_point lm W H) RIGHT_EYE = map (pixel_of lm W H) RIGHT_EYE"
    using r(10) by (simp add: eye_point_in_range)
  ultimately show ?thesis
    by (simp add: generateMaskBuffer_def Let_def)
qed

lemma path_vertices_polygon: "path_vertices (polygon_subpath vs) = vs"
proof (cases vs)
  case Nil
  then show ?thesis by (simp add: polygon_subpath_def)
next
  case (Cons v ws)
  have "path_vertices (map (\<lambda>w. LineTo (fst w) (snd w)) us @ [ClosePath]) = us" for us
    by (induction us) simp_all
  with Cons show ?thesis by (simp add: polygon_subpath_def)
qed

lemma buildMaskPath_returns:
  assumes len: "468 \<le> length lm"
    and c: "\<not> js_lt (corner_radius lm W H) (Fin 0)"
    and mx: "\<not> js_lt (mouth_radius_x lm W H) (Fin 0)"
    and my: "\<not> js_lt (mouth_radius_y lm W H) (Fin 0)"
  shows "\<exists>p. buildMaskPath lm W H = Inr p"
proof -
  note r = named_in_range [OF len]
  note holes = addHoleCCW_in_range [OF eye_indices(3) r(9)] addHoleCCW_in_range [OF eye_indices(4) r(10)]
  note coords = px_in_range [OF r(3), of W H] px_in_range [OF r(4), of W H]
    py_in_range [OF r(1), of H W] py_in_range [OF r(2), of H W]
    px_in_range [OF r(5), of W H] px_in_range [OF r(7), of W H]
    py_in_range [OF r(6), of H W] py_in_range [OF r(8), of H W]
  have arc: "arcTo q a b c d (js_mul (js_sub (fst (pixel_of lm W H RIGHT_EAR)) (fst (pixel_of lm W H LEFT_EAR))) (Fin 0.25))
      = Inr (q @ [ArcTo a b c d (corner_radius lm W H)])" for q a b c d
    using c by (simp add: arcTo_def corner_radius_def)
  have ell: "ellipse q a b
       (js_mul (js_sub (fst (pixel_of lm W H (MOUTH_PTS ! 2))) (fst (pixel_of lm W H (MOUTH_PTS ! 0)))) (Fin 0.35))
       (js_mul (js_sub (snd (pixel_of lm W H (MOUTH_PTS ! 3))) (snd (pixel_of lm W H (MOUTH_PTS ! 1)))) (Fin 0.45))
       e f g h
      = Inr (q @ [Ellipse a b (mouth_radius_x lm W H) (mouth_radius_y lm W H) e f g h])" for q a b e f g h
    using mx my by (simp add: ellipse_def mouth_radius_x_def mouth_radius_y_def)
  show ?thesis
    unfolding buildMaskPath_def coords Let_def arc ebind_Inr holes ell
    by blast
qed


text \<open>
  Claim C2. With at least 468 landmarks, \<^verbatim>\<open>addHoleCCW\<close> appends for a cutout a closed sub-path
  whose vertices are the pixel positions \<^verbatim>\<open>{lm[idx].x * W, lm[idx].y * H}\<close> of the stored
  indices in the reverse of their stored order; every path that \<^verbatim>\<open>buildMaskPath\<close> returns ends
  with that sub-path for the left eye, that for the right eye and the mouth ellipse; and it does
  return a path when none of the three radii it passes to the canvas is negative. In the SVG
  document of \<^verbatim>\<open>generateMaskBuffer\<close> the two eye polygons have the same pixel positions in the
  stored order. The witness takes \<^verbatim>\<open>W = H = 512\<close>.
\<close>

theorem cutout_vertex_order:
  assumes "468 \<le> length lm"
  shows
   "(\<forall>path indices. indices \<noteq> [] \<and> (\<forall>i \<in> set indices. i < length lm) \<longrightarrow>
       addHoleCCW path indices lm W H =
         Inr (path @ polygon_subpath (rev (map (pixel_of lm W H) indices)))) \<and>
    (\<forall>p. buildMaskPath lm W H = Inr p \<longrightarrow>
       (\<exists>outer mouth. p = outer @ polygon_subpath (rev (map (pixel_of lm W H) LEFT_EYE))
           @ polygon_subpath (rev (map (pixel_of lm W H) RIGHT_EYE)) @ [mouth])) \<and>
    (\<not> js_lt (corner_radius lm W H) (Fin 0) \<and> \<not> js_lt (mouth_radius_x lm W H) (Fin 0) \<and>
     \<not> js_lt (mouth_radius_y lm W H) (Fin 0) \<longrightarrow> (\<exists>p. buildMaskPath lm W H = Inr p)) \<and>
    (\<forall>vs. path_vertices (polygon_subpath vs) = vs) \<and>
    (\<exists>mouth. elements (generateMaskBuffer lm W H) =
       [SvgRect, SvgPolygon (map (pixel_of lm W H) LEFT_EYE),
        SvgPolygon (map (pixel_of lm W H) RIGHT_EYE), mouth])"
proof (intro conjI allI impI)
  fix path indices
  assume "indices \<noteq> [] \<and> (\<forall>i \<in> set indices. i < length lm)"
  then show "addHoleCCW path indices lm W H =
         Inr (path @ polygon_subpath (rev (map (pixel_of lm W H) indices)))"
    by (simp add: addHoleCCW_in_range rev_map)
next
  fix p
  assume "buildMaskPath lm W H = Inr p"
  from buildMaskPath_shape [OF assms this]
  show "\<exists>outer mouth. p = outer @ polygon_subpath (rev (map (pixel_of lm W H) LEFT_EYE))
           @ polygon_subpath (rev (map (pixel_of lm W H) RIGHT_EYE)) @ [mouth]"
    by (simp add: rev_map)
next
  assume "\<not> js_lt (corner_radius lm W H) (Fin 0) \<and> \<not> js_lt (mouth_radius_x lm W H) (Fin 0) \<and>
     \<not> js_lt (mouth_radius_y lm W H) (Fin 0)"
  then show "\<exists>p. buildMaskPath lm W H = Inr p"
    using buildMaskPath_returns [OF assms] by blast
next
  fix vs
  show "path_vertices (polygon_subpath vs) = vs"
    by (rule path_vertices_polygon)
next
  show "\<exists>mouth. elements (generateMaskBuffer lm W H) =
       [SvgRect, SvgPolygon (map (pixel_of lm W H) LEFT_EYE),
        SvgPolygon (map (pixel_of lm W H) RIGHT_EYE), mouth]"
    by (rule generateMaskBuffer_polygons [OF assms])
qed

lemma sample_pixel:
  "i < 468 \<Longrightarrow> pixel_of sample_landmarks (Fin 512) (Fin 512) i = (Fin (real i), Fin (real i / 2))"
  by (simp add: pixel_of_def sample_landmarks_def)

lemma sample_eyes:
  "map (pixel_of sample_landmarks (Fin 512) (Fin 512)) LEFT_EYE = [(Fin 33, Fin (33 / 2)), (Fin 246, Fin 123), (Fin 161, Fin (161 / 2)), (Fin 160, Fin 80), (Fin 159, Fin (159 / 2)), (Fin 158, Fin 79), (Fin 157, Fin (157 / 2)), (Fin 173, Fin (173 / 2)), (Fin 133, Fin (133 / 2)), (Fin 155, Fin (155 / 2)), (Fin 154, Fin 77), (Fin 153, Fin (153 / 2)), (Fin 145, Fin (145 / 2)), (Fin 144, Fin 72), (Fin 163, Fin (163 / 2)), (Fin 7, Fin (7 / 2))]"
  "map (pixel_of sample_landmarks (Fin 512) (Fin 512)) RIGHT_EYE = [(Fin 362, Fin 181), (Fin 398, Fin 199), (Fin 384, Fin 192), (Fin 385, Fin (385 / 2)), (Fin 386, Fin 193), (Fin 387, Fin (387 / 2)), (Fin 388, Fin 194), (Fin 466, Fin 233), (Fin 263, Fin (263 / 2)), (Fin 249, Fin (249 / 2)), (Fin 390, Fin 195), (Fin 373, Fin (373 / 2)), (Fin 374, Fin 187), (Fin 380, Fin 190), (Fin 381, Fin (381 / 2)), (Fin 382, Fin 191)]"
  by (simp_all add: LEFT_EYE_def RIGHT_EYE_def sample_pixel)

text \<open>
  The sample landmarks on a 512 by 512 image: the left-eye sub-path runs from landmark 7 back to
  landmark 33, the polygon from landmark 33 on to landmark 7.
\<close>

theorem cutout_vertex_order_witness:
  "468 \<le> length sample_landmarks \<and>
   addHoleCCW [] LEFT_EYE sample_landmarks (Fin 512) (Fin 512) = Inr [MoveTo (Fin 7) (Fin (7 / 2)), LineTo (Fin 163) (Fin (163 / 2)), LineTo (Fin 144) (Fin 72), LineTo (Fin 145) (Fin (145 / 2)), LineTo (Fin 153) (Fin (153 / 2)), LineTo (Fin 154) (Fin 77), LineTo (Fin 155) (Fin (155 / 2)), LineTo (Fin 133) (Fin (133 / 2)), LineTo (Fin 173) (Fin (173 / 2)), LineTo (Fin 157) (Fin (157 / 2)), LineTo (Fin 158) (Fin 79), LineTo (Fin 159) (Fin (159 / 2)), LineTo (Fin 160) (Fin 80), LineTo (Fin 161) (Fin (161 / 2)), LineTo (Fin 246) (Fin 123), LineTo (Fin 33) (Fin (33 / 2)), ClosePath] \<and>
   (\<exists>outer mouth. buildMaskPath sample_landmarks (Fin 512) (Fin 512) =
      Inr (outer @ [MoveTo (Fin 7) (Fin (7 / 2)), LineTo (Fin 163) (Fin (163 / 2)), LineTo (Fin 144) (Fin 72), LineTo (Fin 145) (Fin (145 / 2)), LineTo (Fin 153) (Fin (153 / 2)), LineTo (Fin 154) (Fin 77), LineTo (Fin 155) (Fin (155 / 2)), LineTo (Fin 133) (Fin (133 / 2)), LineTo (Fin 173) (Fin (173 / 2)), LineTo (Fin 157) (Fin (157 / 2)), LineTo (Fin 158) (Fin 79), LineTo (Fin 159) (Fin (159 / 2)), LineTo (Fin 160) (Fin 80), LineTo (Fin 161) (Fin (161 / 2)), LineTo (Fin 246) (Fin 123), LineTo (Fin 33) (Fin (33 / 2)), ClosePath] @ [MoveTo (Fin 382) (Fin 191), LineTo (Fin 381) (Fin (381 / 2)), LineTo (Fin 380) (Fin 190), LineTo (Fin 374) (Fin 187), LineTo (Fin 373) (Fin (373 / 2)), LineTo (Fin 390) (Fin 195), LineTo (Fin 249) (Fin (249 / 2)), LineTo (Fin 263) (Fin (263 / 2)), LineTo (Fin 466) (Fin 233), LineTo (Fin 388) (Fin 194), LineTo (Fin 387) (Fin (387 / 2)), LineTo (Fin 386) (Fin 193), LineTo (Fin 385) (Fin (385 / 2)), LineTo (Fin 384) (Fin 192), LineTo (Fin 398) (Fin 199), LineTo (Fin 362) (Fin 181), ClosePath] @ [mouth])) \<and>
   (\<exists>mouth. elements (generateMaskBuffer sample_landmarks (Fin 512) (Fin 512)) =
      [SvgRect, SvgPolygon [(Fin 33, Fin (33 / 2)), (Fin 246, Fin 123), (Fin 161, Fin (161 / 2)), (Fin 160, Fin 80), (Fin 159, Fin (159 / 2)), (Fin 158, Fin 79), (Fin 157, Fin (157 / 2)), (Fin 173, Fin (173 / 2)), (Fin 133, Fin (133 / 2)), (Fin 155, Fin (155 / 2)), (Fin 154, Fin 77), (Fin 153, Fin (153 / 2)), (Fin 145, Fin (145 / 2)), (Fin 144, Fin 72), (Fin 163, Fin (163 / 2)), (Fin 7, Fin (7 / 2))], SvgPolygon [(Fin 362, Fin 181), (Fin 398, Fin 199), (Fin 384, Fin 192), (Fin 385, Fin (385 / 2)), (Fin 386, Fin 193), (Fin 387, Fin (387 / 2)), (Fin 388, Fin 194), (Fin 466, Fin 233), (Fin 263, Fin (263 / 2)), (Fin 249, Fin (249 / 2)), (Fin 390, Fin 195), (Fin 373, Fin (373 / 2)), (Fin 374, Fin 187), (Fin 380, Fin 190), (Fin 381, Fin (381 / 2)), (Fin 382, Fin 191)], mouth])"
proof -
  have len: "468 \<le> length sample_landmarks"
    by (simp add: sample_landmarks_def)
  note t = cutout_vertex_order [OF len, of "Fin 512" "Fin 512"]
  have in_range: "LEFT_EYE \<noteq> [] \<and> (\<forall>i \<in> set LEFT_EYE. i < length sample_landmarks)"
    by (simp add: LEFT_EYE_def sample_landmarks_def)
  have radii: "\<not> js_lt (corner_radius sample_landmarks (Fin 512) (Fin 512)) (Fin 0) \<and>
     \<not> js_lt (mouth_radius_x sample_landmarks (Fin 512) (Fin 512)) (Fin 0) \<and>
     \<not> js_lt (mouth_radius_y sample_landmarks (Fin 512) (Fin 512)) (Fin 0)"
    by (simp add: corner_radius_def mouth_radius_x_def mouth_radius_y_def sample_pixel
          RIGHT_EAR_def LEFT_EAR_def MOUTH_PTS_def js_sub_def)
  from t in_range have 1: "addHoleCCW [] LEFT_EYE sample_landmarks (Fin 512) (Fin 512) =
      Inr ([] @ polygon_subpath (rev (map (pixel_of sample_landmarks (Fin 512) (Fin 512)) LEFT_EYE)))"
    by blast
  from t radii obtain p where p: "buildMaskPath sample_landmarks (Fin 512) (Fin 512) = Inr p"
    by blast
  with t have 2: "\<exists>outer mouth. p = outer
      @ polygon_subpath (rev (map (pixel_of sample_landmarks (Fin 512) (Fin 512)) LEFT_EYE))
      @ polygon_subpath (rev (map (pixel_of sample_landmarks (Fin 512) (Fin 512)) RIGHT_EYE)) @ [mouth]"
    by blast
  from t have 3: "\<exists>mouth. elements (generateMaskBuffer sample_landmarks (Fin 512) (Fin 512)) =
       [SvgRect, SvgPolygon (map (pixel_of sample_landmarks (Fin 512) (Fin 512)) LEFT_EYE),
        SvgPolygon (map (pixel_of sample_landmarks (Fin 512) (Fin 512)) RIGHT_EYE), mouth]"
    by blast
  from len 1 2 3 p show ?thesis
    by (simp add: sample_eyes polygon_subpath_def)
qed


subsection \<open>Mouth radii\<close>

lemma js_or_zero_finite: "v \<noteq> PInf \<Longrightarrow> v \<noteq> NInf \<Longrightarrow> js_isFinite (js_or_zero v)"
  by (cases v) (simp_all add: js_or_zero_def)

lemma js_mul_finite: "js_isFinite a \<Longrightarrow> js_isFinite b \<Longrightarrow> js_isFinite (js_mul a b)"
  by (cases a; cases b) simp_all

lemma opt_coord_finite:
  assumes "js_isFinite scale" and "\<forall>l \<in> set lm. js_isFinite (field l)"
  shows "js_isFinite (js_or_zero (opt_coord lm i field scale))"
proof (cases "i < length lm")
  case True
  with assms have "js_isFinite (js_mul (field (lm ! i)) scale)"
    by (simp add: js_mul_finite)
  with True show ?thesis
    by (cases "js_mul (field (lm ! i)) scale") (simp_all add: opt_coord_def landmark_at_def js_or_zero_def)
next
  case False
  then show ?thesis
    by (simp add: opt_coord_def landmark_at_def js_or_zero_def)
qed

lemma floor_ten: "js_isFinite a \<Longrightarrow> js_isFinite b \<Longrightarrow> js_ge (js_max (js_mul (js_sub b a) (Fin c)) (Fin 10)) (Fin 10)"
  by (cases a; cases b) (simp_all add: js_ge_def js_max_def js_sub_def)

lemma svg_mouth_radii_floored:
  assumes W: "js_isFinite W" and H: "js_isFinite H"
    and fin: "\<forall>l \<in> set lm. js_isFinite (x l) \<and> js_isFinite (y l)"
  shows "\<exists>cx cy rx ry. last (elements (generateMaskBuffer lm W H)) = SvgEllipse cx cy rx ry \<and>
           js_ge rx (Fin 10) \<and> js_ge ry (Fin 10)"
proof -
  from fin have fx: "\<forall>l \<in> set lm. js_isFinite (x l)" and fy: "\<forall>l \<in> set lm. js_isFinite (y l)"
    by simp_all
  note cx = opt_coord_finite [OF W fx] and cy = opt_coord_finite [OF H fy]
  show ?thesis
    by (simp add: generateMaskBuffer_def Let_def floor_ten [OF cx cx] floor_ten [OF cy cy])
qed

lemma centre_pixel:
  "i < 468 \<Longrightarrow> pixel_of centre_landmarks (Fin 512) (Fin 512) i = (Fin 256, Fin 256)"
  by (simp add: pixel_of_def centre_landmarks_def)

lemma named_pixels_centre:
  "pixel_of centre_landmarks (Fin 512) (Fin 512) TOP_HEAD = (Fin 256, Fin 256)"
  "pixel_of centre_landmarks (Fin 512) (Fin 512) CHIN = (Fin 256, Fin 256)"
  "pixel_of centre_landmarks (Fin 512) (Fin 512) LEFT_EAR = (Fin 256, Fin 256)"
  "pixel_of centre_landmarks (Fin 512) (Fin 512) RIGHT_EAR = (Fin 256, Fin 256)"
  "pixel_of centre_landmarks (Fin 512) (Fin 512) (MOUTH_PTS ! 0) = (Fin 256, Fin 256)"
  "pixel_of centre_landmarks (Fin 512) (Fin 512) (MOUTH_PTS ! 1) = (Fin 256, Fin 256)"
  "pixel_of centre_landmarks (Fin 512) (Fin 512) (MOUTH_PTS ! 2) = (Fin 256, Fin 256)"
  "pixel_of centre_landmarks (Fin 512) (Fin 512) (MOUTH_PTS ! 3) = (Fin 256, Fin 256)"
  by (simp_all add: centre_pixel TOP_HEAD_def CHIN_def LEFT_EAR_def RIGHT_EAR_def MOUTH_PTS_def)

lemma named_pixels_sample:
  "pixel_of sample_landmarks (Fin 512) (Fin 512) TOP_HEAD = (Fin 10, Fin 5)"
  "pixel_of sample_landmarks (Fin 512) (Fin 512) CHIN = (Fin 152, Fin 76)"
  "pixel_of sample_landmarks (Fin 512) (Fin 512) LEFT_EAR = (Fin 234, Fin 117)"
  "pixel_of sample_landmarks (Fin 512) (Fin 512) RIGHT_EAR = (Fin 454, Fin 227)"
  "pixel_of sample_landmarks (Fin 512) (Fin 512) (MOUTH_PTS ! 0) = (Fin 78, Fin 39)"
  "pixel_of sample_landmarks (Fin 512) (Fin 512) (MOUTH_PTS ! 1) = (Fin 13, Fin (13 / 2))"
  "pixel_of sample_landmarks (Fin 512) (Fin 512) (MOUTH_PTS ! 2) = (Fin 308, Fin 154)"
  "pixel_of sample_landmarks (Fin 512) (Fin 512) (MOUTH_PTS ! 3) = (Fin 14, Fin 7)"
  by (simp_all add: sample_pixel TOP_HEAD_def CHIN_def LEFT_EAR_def RIGHT_EAR_def MOUTH_PTS_def)

text \<open>
  Claim C5 on a 512 by 512 image, at a closed mouth (468 landmarks at the image centre) and at
  the sample landmarks, whose lips are half a pixel apart. The last call that \<^verbatim>\<open>buildMaskPath\<close>
  issues is the mouth ellipse: its radii are 0 and 0 at the closed mouth, 80.5 and 0.225 at the
  sample landmarks. The ellipse of \<^verbatim>\<open>generateMaskBuffer\<close> has the radii 10 and 10, and 80.5 and
  10.
\<close>

theorem canvas_mouth_radii_not_floored:
  "map_sum id last (buildMaskPath centre_landmarks (Fin 512) (Fin 512)) =
     Inr (Ellipse (Fin 256) (Fin 256) (Fin 0) (Fin 0) (Fin 0) (Fin 0) (js_mul MATH_PI (Fin 2)) True) \<and>
   last (elements (generateMaskBuffer centre_landmarks (Fin 512) (Fin 512))) =
     SvgEllipse (Fin 256) (Fin 256) (Fin 10) (Fin 10) \<and>
   map_sum id last (buildMaskPath sample_landmarks (Fin 512) (Fin 512)) =
     Inr (Ellipse (Fin 193) (Fin (27 / 4)) (Fin (161 / 2)) (Fin (9 / 40)) (Fin 0) (Fin 0)
            (js_mul MATH_PI (Fin 2)) True) \<and>
   last (elements (generateMaskBuffer sample_landmarks (Fin 512) (Fin 512))) =
     SvgEllipse (Fin 193) (Fin (27 / 4)) (Fin (161 / 2)) (Fin 10)"
proof -
  have canvas: "map_sum id last (buildMaskPath lm (Fin 512) (Fin 512)) =
      Inr (Ellipse cx cy rx ry (Fin 0) (Fin 0) (js_mul MATH_PI (Fin 2)) True)"
    if len: "468 \<le> length lm"
      and ears: "pixel_of lm (Fin 512) (Fin 512) LEFT_EAR = (Fin l, Fin t1)"
        "pixel_of lm (Fin 512) (Fin 512) RIGHT_EAR = (Fin r, Fin t2)" "l \<le> r"
      and head: "pixel_of lm (Fin 512) (Fin 512) TOP_HEAD = (Fin t3, Fin top)"
        "pixel_of lm (Fin 512) (Fin 512) CHIN = (Fin t4, Fin chin)"
      and mouth: "pixel_of lm (Fin 512) (Fin 512) (MOUTH_PTS ! 0) = (Fin ml, Fin t5)"
        "pixel_of lm (Fin 512) (Fin 512) (MOUTH_PTS ! 1) = (Fin t6, Fin mt)"
        "pixel_of lm (Fin 512) (Fin 512) (MOUTH_PTS ! 2) = (Fin mr, Fin t7)"
        "pixel_of lm (Fin 512) (Fin 512) (MOUTH_PTS ! 3) = (Fin t8, Fin mb)"
        "ml \<le> mr" "mt \<le> mb"
      and res: "cx = Fin ((ml + mr) / 2)" "cy = Fin ((mt + mb) / 2)"
        "rx = Fin ((mr - ml) * 0.35)" "ry = Fin ((mb - mt) * 0.45)"
    for lm l r top chin ml mr mt mb t1 t2 t3 t4 t5 t6 t7 t8 cx cy rx ry
  proof -
    note n = named_in_range [OF len]
    note holes = addHoleCCW_in_range [OF eye_indices(3) n(9)]
      addHoleCCW_in_range [OF eye_indices(4) n(10)]
    note coords = px_in_range [OF n(3), of "Fin 512" "Fin 512"]
      px_in_range [OF n(4), of "Fin 512" "Fin 512"]
      py_in_range [OF n(1), of "Fin 512" "Fin 512"] py_in_range [OF n(2), of "Fin 512" "Fin 512"]
      px_in_range [OF n(5), of "Fin 512" "Fin 512"] px_in_range [OF n(7), of "Fin 512" "Fin 512"]
      py_in_range [OF n(6), of "Fin 512" "Fin 512"] py_in_range [OF n(8), of "Fin 512" "Fin 512"]
    show ?thesis
      unfolding buildMaskPath_def coords ears(1,2) head mouth(1-4) Let_def fst_conv snd_conv
      using ears(3) mouth(5,6)
      by (simp add: js_sub_def arcTo_def holes ellipse_def MATH_PI_def res)
  qed
  have 1: "map_sum id last (buildMaskPath centre_landmarks (Fin 512) (Fin 512)) =
     Inr (Ellipse (Fin 256) (Fin 256) (Fin 0) (Fin 0) (Fin 0) (Fin 0) (js_mul MATH_PI (Fin 2)) True)"
    by (rule canvas [OF _ named_pixels_centre(3,4) _ named_pixels_centre(1,2)
          named_pixels_centre(5-8)]) (simp_all add: centre_landmarks_def)
  have 2: "last (elements (generateMaskBuffer centre_landmarks (Fin 512) (Fin 512))) =
     SvgEllipse (Fin 256) (Fin 256) (Fin 10) (Fin 10)"
    by (simp add: generateMaskBuffer_def Let_def opt_coord_def landmark_at_def centre_landmarks_def
          MOUTH_PTS_def js_or_zero_def js_sub_def js_max_def)
  have 3: "map_sum id last (buildMaskPath sample_landmarks (Fin 512) (Fin 512)) =
     Inr (Ellipse (Fin 193) (Fin (27 / 4)) (Fin (161 / 2)) (Fin (9 / 40)) (Fin 0) (Fin 0)
            (js_mul MATH_PI (Fin 2)) True)"
    by (rule canvas [OF _ named_pixels_sample(3,4) _ named_pixels_sample(1,2)
          named_pixels_sample(5-8)]) (simp_all add: sample_landmarks_def)
  have 4: "last (elements (generateMaskBuffer sample_landmarks (Fin 512) (Fin 512))) =
     SvgEllipse (Fin 193) (Fin (27 / 4)) (Fin (161 / 2)) (Fin 10)"
    by (simp add: generateMaskBuffer_def Let_def opt_coord_def landmark_at_def sample_landmarks_def
          MOUTH_PTS_def js_or_zero_def js_sub_def js_max_def)
  from 1 2 3 4 show ?thesis by blast
qed

section \<open>Cache eviction\<close>















text \<open>The sample insertions: 21 distinct keys, one second apart.\<close>

lemma sample_key: "generateKey (sample_request i) = replicate (Suc i) (CHR ''a'') @ ''_realistic_high''"
  by (simp add: generateKey_def sample_request_def quality_name_def)





section \<open>Single-flight generation\<close>

lemma generate_enter_busy_miss:
  assumes busy: "isGenerating g" and miss: "fst (cache_get (generateKey request) now (cache g)) = None"
  shows "generate_enter request now g =
           (Threw (Error ''Generation already in progress''),
            g\<lparr>cache := snd (cache_get (generateKey request) now (cache g))\<rparr>)"
  using busy miss
  by (cases "cache_get (generateKey request) now (cache g)") (simp add: generate_enter_def)

lemma cache_get_absent: "map_of c key = None \<Longrightarrow> cache_get key now c = (None, c)"
  by (simp add: cache_get_def)

lemma cache_get_miss_cases:
  assumes "fst (cache_get key now c) = None"
  shows "snd (cache_get key now c) = c \<or>
         (\<exists>entry. map_of c key = Some entry \<and> now - timestamp entry > ttl \<and>
                  snd (cache_get key now c) = AList.delete key c)"
  using assms by (auto simp: cache_get_def split: option.splits if_splits)

lemma generate_enter_hit:
  assumes "fst (cache_get (generateKey request) now (cache g)) = Some r"
  shows "generate_enter request now g = (Returned r, g)"
proof -
  from assms have "cache_get (generateKey request) now (cache g) = (Some r, cache g)"
    by (auto simp: cache_get_def split: option.splits if_splits)
  then show ?thesis
    by (simp add: generate_enter_def)
qed

text \<open>
  Claim C8, as amended. A \<^verbatim>\<open>generate\<close> request made while a generation is outstanding, whose key
  has no unexpired entry in the cache, fails at once with \<^verbatim>\<open>Generation already in progress\<close>;
  it is not queued, the in-flight flag stays set, and the cache is as before except that an
  expired entry under the request's key has been deleted by the cache lookup. When the key has
  no entry at all the generator is unchanged. A request whose key has an unexpired entry returns
  the cached response and leaves the generator unchanged, whether or not a generation is
  outstanding. \<^verbatim>\<open>generateStreaming\<close> fails at once whenever a generation is outstanding.
\<close>

theorem single_flight:
  "(\<forall>request now g.
      isGenerating g \<and> fst (cache_get (generateKey request) now (cache g)) = None \<longrightarrow>
      generate_enter request now g =
        (Threw (Error ''Generation already in progress''),
         g\<lparr>cache := snd (cache_get (generateKey request) now (cache g))\<rparr>) \<and>
      isGenerating (snd (generate_enter request now g)) \<and>
      (cache (snd (generate_enter request now g)) = cache g \<or>
       cache (snd (generate_enter request now g)) = AList.delete (generateKey request) (cache g))) \<and>
   (\<forall>request now g.
      isGenerating g \<and> map_of (cache g) (generateKey request) = None \<longrightarrow>
      generate_enter request now g = (Threw (Error ''Generation already in progress''), g)) \<and>
   (\<forall>request now g r.
      fst (cache_get (generateKey request) now (cache g)) = Some r \<longrightarrow>
      generate_enter request now g = (Returned r, g)) \<and>
   (\<forall>g. isGenerating g \<longrightarrow>
      generateStreaming_enter g = (Threw (Error ''Generation already in progress''), g))"
proof (intro conjI allI impI)
  fix request now and g :: AITextureGenerator
  assume h: "isGenerating g \<and> fst (cache_get (generateKey request) now (cache g)) = None"
  then have e: "generate_enter request now g =
        (Threw (Error ''Generation already in progress''),
         g\<lparr>cache := snd (cache_get (generateKey request) now (cache g))\<rparr>)"
    by (simp add: generate_enter_busy_miss)
  from e show "generate_enter request now g =
        (Threw (Error ''Generation already in progress''),
         g\<lparr>cache := snd (cache_get (generateKey request) now (cache g))\<rparr>)" .
  from e h show "isGenerating (snd (generate_enter request now g))" by simp
  from h cache_get_miss_cases [of "generateKey request" now "cache g"]
  show "cache (snd (generate_enter request now g)) = cache g \<or>
       cache (snd (generate_enter request now g)) = AList.delete (generateKey request) (cache g)"
    unfolding e by auto
next
  fix request now and g :: AITextureGenerator
  assume h: "isGenerating g \<and> map_of (cache g) (generateKey request) = None"
  then have "cache_get (generateKey request) now (cache g) = (None, cache g)"
    by (simp add: cache_get_absent)
  with h show "generate_enter request now g = (Threw (Error ''Generation already in progress''), g)"
    by (simp add: generate_enter_def)
next
  fix request now r and g :: AITextureGenerator
  assume "fst (cache_get (generateKey request) now (cache g)) = Some r"
  then show "generate_enter request now g = (Returned r, g)"
    by (rule generate_enter_hit)
next
  fix g :: AITextureGenerator
  assume "isGenerating g"
  then show "generateStreaming_enter g = (Threw (Error ''Generation already in progress''), g)"
    by (simp add: generateStreaming_enter_def)
qed

text \<open>
  Claim C8 as stated fails in both of its parts at the busy generator: a request for the cached
  key returns the cached response instead of failing, and a request for the same key made after
  the entry has expired fails but leaves the cache without that entry.
\<close>

theorem single_flight_counterexample:
  "isGenerating busy_generator \<and>
   generate_enter (sample_request 0) 1000 busy_generator = (Returned sample_response, busy_generator) \<and>
   generate_enter (sample_request 0) 90000000 busy_generator =
     (Threw (Error ''Generation already in progress''), busy_generator\<lparr>cache := []\<rparr>) \<and>
   busy_generator\<lparr>cache := []\<rparr> \<noteq> busy_generator"
  by (simp add: generate_enter_def busy_generator_def cache_get_def ttl_def sample_key AList.delete_eq)

text \<open>The four clauses at the busy generator.\<close>

theorem single_flight_witness:
  "isGenerating busy_generator \<and>
   generate_enter (sample_request 1) 1000 busy_generator =
     (Threw (Error ''Generation already in progress''), busy_generator) \<and>
   generate_enter (sample_request 0) 90000000 busy_generator =
     (Threw (Error ''Generation already in progress''), busy_generator\<lparr>cache := []\<rparr>) \<and>
   generate_enter (sample_request 0) 1000 busy_generator = (Returned sample_response, busy_generator) \<and>
   generateStreaming_enter busy_generator =
     (Threw (Error ''Generation already in progress''), busy_generator)"
proof -
  have busy: "isGenerating busy_generator"
    by (simp add: busy_generator_def)
  have absent: "map_of (cache busy_generator) (generateKey (sample_request 1)) = None"
    by (simp add: busy_generator_def sample_key)
  have expired: "cache_get (generateKey (sample_request 0)) 90000000 (cache busy_generator) = (None, [])"
    by (simp add: busy_generator_def cache_get_def ttl_def sample_key AList.delete_eq)
  have live: "cache_get (generateKey (sample_request 0)) 1000 (cache busy_generator)
      = (Some sample_response, cache busy_generator)"
    by (simp add: busy_generator_def cache_get_def ttl_def sample_key)
  note t = single_flight
  from t busy absent have 1: "generate_enter (sample_request 1) 1000 busy_generator =
     (Threw (Error ''Generation already in progress''), busy_generator)"
    by blast
  from t have "isGenerating busy_generator \<and>
      fst (cache_get (generateKey (sample_request 0)) 90000000 (cache busy_generator)) = None \<longrightarrow>
      generate_enter (sample_request 0) 90000000 busy_generator =
        (Threw (Error ''Generation already in progress''),
         busy_generator\<lparr>cache := snd (cache_get (generateKey (sample_request 0)) 90000000 (cache busy_generator))\<rparr>)"
    by blast
  with busy expired have 2: "generate_enter (sample_request 0) 90000000 busy_generator =
     (Threw (Error ''Generation already in progress''), busy_generator\<lparr>cache := []\<rparr>)"
    by simp
  from t have "fst (cache_get (generateKey (sample_request 0)) 1000 (cache busy_generator)) = Some sample_response \<longrightarrow>
      generate_enter (sample_request 0) 1000 busy_generator = (Returned sample_response, busy_generator)"
    by blast
  with live have 3: "generate_enter (sample_request 0) 1000 busy_generator = (Returned sample_response, busy_generator)"
    by simp
  from t busy have 4: "generateStreaming_enter busy_generator =
     (Threw (Error ''Generation already in progress''), busy_generator)"
    by blast
  from busy 1 2 3 4 show ?thesis by blast
qed

section \<open>Prompt enhancement\<close>

lemma js_join_snoc: "ps \<noteq> [] \<Longrightarrow> js_join sep (ps @ [q]) = js_join sep ps @ sep @ q"
  by (induction sep ps rule: js_join.induct) simp_all

lemma style_phrase: "map_of STYLE_PRESETS (style_name s) = Some (preset STYLE_PRESETS (style_name s)) \<and>
    preset STYLE_PRESETS (style_name s) \<noteq> []"
  by (cases s) (simp_all add: preset_def STYLE_PRESETS_def style_name_def)

lemma quality_phrase: "map_of QUALITY_PRESETS (quality_name q) = Some (preset QUALITY_PRESETS (quality_name q)) \<and>
    preset QUALITY_PRESETS (quality_name q) \<noteq> []"
  by (cases q) (simp_all add: preset_def QUALITY_PRESETS_def quality_name_def)

lemma lighting_phrase: "map_of LIGHTING_PRESETS (lighting_name l) = Some (preset LIGHTING_PRESETS (lighting_name l)) \<and>
    preset LIGHTING_PRESETS (lighting_name l) \<noteq> []"
  by (cases l) (simp_all add: preset_def LIGHTING_PRESETS_def lighting_name_def)

lemma material_phrase: "map_of MATERIAL_PRESETS (material_name m) = Some (preset MATERIAL_PRESETS (material_name m)) \<and>
    preset MATERIAL_PRESETS (material_name m) \<noteq> []"
  by (cases m) (simp_all add: preset_def MATERIAL_PRESETS_def material_name_def)

lemma detail_phrase: "map_of DETAIL_PRESETS (detail_name d) = Some (preset DETAIL_PRESETS (detail_name d)) \<and>
    preset DETAIL_PRESETS (detail_name d) \<noteq> []"
  by (cases d) (simp_all add: preset_def DETAIL_PRESETS_def detail_name_def)

lemma valid_iff:
  "valid (validatePrompt prompt) \<longleftrightarrow>
     prompt \<noteq> [] \<and> 5 \<le> length (js_trim prompt) \<and> length (js_trim prompt) \<le> 500 \<and>
     \<not> js_includes (toLowerCase (js_trim prompt)) ''violence'' \<and>
     \<not> js_includes (toLowerCase (js_trim prompt)) ''hate'' \<and>
     \<not> js_includes (toLowerCase (js_trim prompt)) ''explicit''"
  by (auto simp: validatePrompt_def Let_def minLength_def maxLength_def inappropriateWords_def)

lemma invalid_error:
  "\<not> valid (validatePrompt prompt) \<Longrightarrow>
   error (validatePrompt prompt) \<in> Some ` {''Prompt must be a non-empty string'',
     ''Prompt must be at least 5 characters'', ''Prompt must be less than 500 characters'',
     ''Prompt contains inappropriate content''}"
  by (simp add: validatePrompt_def Let_def split: if_splits)

lemma enhancePrompt_valid:
  assumes v: "valid (validatePrompt prompt)"
  shows "\<exists>r. enhancePrompt prompt config = Inr r \<and>
             enhanced r = six_part_prompt prompt config @ '', mask, face mask, wearable art''"
proof -
  from v have "5 \<le> length (js_trim prompt)" by (simp add: valid_iff)
  then have ne: "js_trim prompt \<noteq> []" by auto
  let ?six = "[js_trim prompt,
        preset STYLE_PRESETS (style_name (case cfg_style config of Some s \<Rightarrow> s | None \<Rightarrow> Realistic)),
        preset QUALITY_PRESETS (quality_name (case cfg_quality config of Some q \<Rightarrow> q | None \<Rightarrow> High)),
        preset LIGHTING_PRESETS (lighting_name (case cfg_lighting config of Some l \<Rightarrow> l | None \<Rightarrow> Studio)),
        preset MATERIAL_PRESETS (material_name (case cfg_material config of Some m \<Rightarrow> m | None \<Rightarrow> Metal)),
        preset DETAIL_PRESETS (detail_name (case cfg_detailLevel config of Some d \<Rightarrow> d | None \<Rightarrow> DetailHigh))]"
  have join: "js_join '', '' (?six @ [''mask, face mask, wearable art'']) =
      js_join '', '' ?six @ '', '' @ ''mask, face mask, wearable art''"
    by (rule js_join_snoc) simp
  show ?thesis
    using v ne join
    by (simp add: enhancePrompt_def Let_def truthy_parts_def six_part_prompt_def
          style_phrase quality_phrase lighting_phrase material_phrase detail_phrase)
qed


text \<open>
  Claim C9, as amended. For every valid phrase \<^verbatim>\<open>enhancePrompt\<close> returns an enhanced prompt that
  is the comma-joined concatenation of the trimmed phrase, the style, quality, lighting,
  material and detail phrases selected by the configuration, and the fixed closing phrase
  \<^verbatim>\<open>mask, face mask, wearable art\<close>. For every invalid phrase it throws an error that carries
  the non-empty message of \<^verbatim>\<open>validatePrompt\<close>. A phrase is valid when it is not empty, its
  trimmed form has between 5 and 500 characters, and the lower-cased trimmed form contains none
  of \<^verbatim>\<open>violence\<close>, \<^verbatim>\<open>hate\<close>, \<^verbatim>\<open>explicit\<close>.
\<close>

theorem enhancePrompt_parts:
  "(\<forall>prompt config. valid (validatePrompt prompt) \<longrightarrow>
      (\<exists>r. enhancePrompt prompt config = Inr r \<and>
           enhanced r = six_part_prompt prompt config @ '', mask, face mask, wearable art'')) \<and>
   (\<forall>prompt config. \<not> valid (validatePrompt prompt) \<longrightarrow>
      (\<exists>msg. msg \<noteq> [] \<and> error (validatePrompt prompt) = Some msg \<and>
             enhancePrompt prompt config = Inl (Error msg))) \<and>
   (\<forall>prompt. valid (validatePrompt prompt) =
      (prompt \<noteq> [] \<and> 5 \<le> length (js_trim prompt) \<and> length (js_trim prompt) \<le> 500 \<and>
       \<not> js_includes (toLowerCase (js_trim prompt)) ''violence'' \<and>
       \<not> js_includes (toLowerCase (js_trim prompt)) ''hate'' \<and>
       \<not> js_includes (toLowerCase (js_trim prompt)) ''explicit''))"
proof (intro conjI allI impI)
  fix prompt config
  assume "valid (validatePrompt prompt)"
  then show "\<exists>r. enhancePrompt prompt config = Inr r \<and>
           enhanced r = six_part_prompt prompt config @ '', mask, face mask, wearable art''"
    by (rule enhancePrompt_valid)
next
  fix prompt and config :: PromptConfig
  assume inv: "\<not> valid (validatePrompt prompt)"
  from invalid_error [OF inv] obtain msg where m: "error (validatePrompt prompt) = Some msg" "msg \<noteq> []"
    by auto
  with inv have "enhancePrompt prompt config = Inl (Error msg)"
    by (simp add: enhancePrompt_def Let_def)
  with m show "\<exists>msg. msg \<noteq> [] \<and> error (validatePrompt prompt) = Some msg \<and>
             enhancePrompt prompt config = Inl (Error msg)"
    by blast
next
  fix prompt
  show "valid (validatePrompt prompt) =
      (prompt \<noteq> [] \<and> 5 \<le> length (js_trim prompt) \<and> length (js_trim prompt) \<le> 500 \<and>
       \<not> js_includes (toLowerCase (js_trim prompt)) ''violence'' \<and>
       \<not> js_includes (toLowerCase (js_trim prompt)) ''hate'' \<and>
       \<not> js_includes (toLowerCase (js_trim prompt)) ''explicit'')"
    by (rule valid_iff)
qed

lemmas string_ops = js_trim_def is_whitespace_def toLowerCase_def lower_char_def

lemma golden_valid: "valid (validatePrompt ''  golden mask '')" "js_trim ''  golden mask '' = ''golden mask''"
  "valid (validatePrompt ''golden mask'')" "js_trim ''golden mask'' = ''golden mask''"
  by (simp_all add: validatePrompt_def Let_def minLength_def maxLength_def inappropriateWords_def
        string_ops)

lemma golden_six:
  "six_part_prompt ''  golden mask '' default_config = ''golden mask, photorealistic, 4K, professional photography, detailed, high quality, 2048x2048 resolution, excellent quality, highly detailed, studio lighting, professional lighting setup, key light, fill light, metallic, shiny, reflective, polished metal, intricate details, complex patterns, fine textures''"
  "six_part_prompt ''golden mask'' default_config = ''golden mask, photorealistic, 4K, professional photography, detailed, high quality, 2048x2048 resolution, excellent quality, highly detailed, studio lighting, professional lighting setup, key light, fill light, metallic, shiny, reflective, polished metal, intricate details, complex patterns, fine textures''"
  by (simp_all add: six_part_prompt_def default_config_def golden_valid preset_def
        STYLE_PRESETS_def QUALITY_PRESETS_def LIGHTING_PRESETS_def MATERIAL_PRESETS_def
        DETAIL_PRESETS_def style_name_def quality_name_def lighting_name_def material_name_def
        detail_name_def)

text \<open>
  Claim C9 as stated, that the enhanced prompt is exactly the six joined parts, fails for the
  valid phrase \<^verbatim>\<open>golden mask\<close> under the default configuration: the enhanced prompt ends with
  the seventh, fixed phrase.
\<close>

theorem enhancePrompt_parts_counterexample:
  "valid (validatePrompt ''golden mask'') \<and>
   map_sum id enhanced (enhancePrompt ''golden mask'' default_config) = Inr ''golden mask, photorealistic, 4K, professional photography, detailed, high quality, 2048x2048 resolution, excellent quality, highly detailed, studio lighting, professional lighting setup, key light, fill light, metallic, shiny, reflective, polished metal, intricate details, complex patterns, fine textures, mask, face mask, wearable art'' \<and>
   six_part_prompt ''golden mask'' default_config = ''golden mask, photorealistic, 4K, professional photography, detailed, high quality, 2048x2048 resolution, excellent quality, highly detailed, studio lighting, professional lighting setup, key light, fill light, metallic, shiny, reflective, polished metal, intricate details, complex patterns, fine textures'' \<and>
   map_sum id enhanced (enhancePrompt ''golden mask'' default_config)
     \<noteq> Inr (six_part_prompt ''golden mask'' default_config)"
proof -
  from enhancePrompt_valid [OF golden_valid(3), of default_config]
  have "map_sum id enhanced (enhancePrompt ''golden mask'' default_config) =
      Inr (six_part_prompt ''golden mask'' default_config @ '', mask, face mask, wearable art'')"
    by auto
  then show ?thesis
    by (simp add: golden_valid(3) golden_six(2))
qed

text \<open>A valid phrase with surrounding blanks, and three invalid phrases.\<close>

theorem enhancePrompt_parts_witness:
  "valid (validatePrompt ''  golden mask '') \<and>
   map_sum id enhanced (enhancePrompt ''  golden mask '' default_config) = Inr ''golden mask, photorealistic, 4K, professional photography, detailed, high quality, 2048x2048 resolution, excellent quality, highly detailed, studio lighting, professional lighting setup, key light, fill light, metallic, shiny, reflective, polished metal, intricate details, complex patterns, fine textures, mask, face mask, wearable art'' \<and>
   \<not> valid (validatePrompt ''I HATE masks'') \<and>
   enhancePrompt ''I HATE masks'' default_config = Inl (Error ''Prompt contains inappropriate content'') \<and>
   enhancePrompt ''mask'' default_config = Inl (Error ''Prompt must be at least 5 characters'') \<and>
   enhancePrompt [] default_config = Inl (Error ''Prompt must be a non-empty string'')"
proof -
  note t = enhancePrompt_parts
  from t golden_valid(1) obtain r where
    "enhancePrompt ''  golden mask '' default_config = Inr r"
    "enhanced r = six_part_prompt ''  golden mask '' default_config @ '', mask, face mask, wearable art''"
    by blast
  then have 1: "map_sum id enhanced (enhancePrompt ''  golden mask '' default_config) = Inr ''golden mask, photorealistic, 4K, professional photography, detailed, high quality, 2048x2048 resolution, excellent quality, highly detailed, studio lighting, professional lighting setup, key light, fill light, metallic, shiny, reflective, polished metal, intricate details, complex patterns, fine textures, mask, face mask, wearable art''"
    by (simp add: golden_six(1))
  have lower: "toLowerCase ''I HATE masks'' = ''i hate masks''"
    by code_simp
  have e1: "\<not> valid (validatePrompt ''I HATE masks'')"
    "error (validatePrompt ''I HATE masks'') = Some ''Prompt contains inappropriate content''"
    by (simp_all add: validatePrompt_def Let_def minLength_def maxLength_def inappropriateWords_def
        js_trim_def is_whitespace_def lower)
  have e2: "\<not> valid (validatePrompt ''mask'')"
    "error (validatePrompt ''mask'') = Some ''Prompt must be at least 5 characters''"
    by (simp_all add: validatePrompt_def Let_def minLength_def maxLength_def string_ops)
  have e3: "\<not> valid (validatePrompt [])"
    "error (validatePrompt []) = Some ''Prompt must be a non-empty string''"
    by (simp_all add: validatePrompt_def)
  from t e1(1) obtain m1 where "error (validatePrompt ''I HATE masks'') = Some m1"
    "enhancePrompt ''I HATE masks'' default_config = Inl (Error m1)"
    by blast
  with e1(2) have 2: "enhancePrompt ''I HATE masks'' default_config = Inl (Error ''Prompt contains inappropriate content'')"
    by simp
  from t e2(1) obtain m2 where "error (validatePrompt ''mask'') = Some m2"
    "enhancePrompt ''mask'' default_config = Inl (Error m2)"
    by blast
  with e2(2) have 3: "enhancePrompt ''mask'' default_config = Inl (Error ''Prompt must be at least 5 characters'')"
    by simp
  from t e3(1) obtain m3 where "error (validatePrompt []) = Some m3"
    "enhancePrompt [] default_config = Inl (Error m3)"
    by blast
  with e3(2) have 4: "enhancePrompt [] default_config = Inl (Error ''Prompt must be a non-empty string'')"
    by simp
  from golden_valid(1) 1 e1(1) 2 3 4 show ?thesis by blast
qed

end
